theory Spec2Isabelle
  imports Main "HOL-Library.Multiset"
begin

section \<open>Entity store (src/db/schema.ts)\<close>

text \<open>
  The four tables of the schema, one record per row type. Identifiers are the text of a
  uuid and are compared as text, timestamps are ECMAScript time values (milliseconds
  since the epoch), a nullable column is an \<open>option\<close>. Column names carry a prefix
  for their table.
\<close>

record workout_row =
  w_id :: string
  w_userId :: string
  w_name :: "string option"
  w_startedAt :: int
  w_completedAt :: "int option"
  w_createdAt :: int
  w_updatedAt :: int

record exercise_row =
  e_id :: string
  e_userId :: string
  e_name :: string
  e_createdAt :: int
  e_updatedAt :: int

record workoutExercise_row =
  we_id :: string
  we_workoutId :: string
  we_exerciseId :: string
  we_order :: int
  we_createdAt :: int
  we_updatedAt :: int

record set_row =
  s_id :: string
  s_workoutExerciseId :: string
  s_setNumber :: int
  s_reps :: "int option"
  s_weight :: "string option"
  s_createdAt :: int
  s_updatedAt :: int

text \<open>A table is the list of its rows in storage (insertion) order.\<close>

record database =
  workouts :: "workout_row list"
  exercises :: "exercise_row list"
  workoutExercises :: "workoutExercise_row list"
  sets :: "set_row list"

text \<open>\<open>id\<close> is the primary key of \<open>workouts\<close>: the store never holds two rows with one id.\<close>

definition primary_key_ok :: "database \<Rightarrow> bool" where
  "primary_key_ok db = distinct (map w_id (workouts db))"

section \<open>What a call depends on outside the repository\<close>

text \<open>
  \<open>env_auth\<close> is the \<open>userId\<close> that Clerk's \<open>auth()\<close> resolves (\<open>None\<close> for \<open>null\<close>);
  \<open>env_now\<close> is the value of \<open>new Date()\<close>;
  \<open>env_tza\<close> is the host's \<open>LocalTZA(t, isUTC)\<close> of ECMAScript, the offset of local time;
  \<open>env_fault\<close> is what the store does with the statement of this call: \<open>None\<close> when it
  executes it, \<open>Some msg\<close> when it rejects with an error carrying \<open>msg\<close>;
  \<open>env_newId\<close> and \<open>env_dbNow\<close> are the column defaults \<open>defaultRandom()\<close> and
  \<open>defaultNow()\<close> the store evaluates on insert;
  \<open>env_uuid\<close> is the test behind zod's \<open>z.string().uuid()\<close>;
  \<open>env_parseDate\<close> is \<open>new Date(string)\<close> (\<open>None\<close> for an Invalid Date).
\<close>

record env =
  env_auth :: "string option"
  env_now :: int
  env_tza :: "int \<Rightarrow> bool \<Rightarrow> int"
  env_fault :: "string option"
  env_newId :: string
  env_dbNow :: int
  env_uuid :: "string \<Rightarrow> bool"
  env_parseDate :: "string \<Rightarrow> int option"

section \<open>Access-control query layer (src/data/workouts.ts)\<close>

subsection \<open>Nested fetch\<close>

text \<open>
  The value the relational query returns for one workout: the row, and under
  \<open>workoutExercises\<close> each association row with its \<open>exercise\<close> and its \<open>sets\<close>.
\<close>

record workoutExercise_full =
  wef_row :: workoutExercise_row
  wef_exercise :: "exercise_row option"
  wef_sets :: "set_row list"

record workout_full =
  wf_row :: workout_row
  wf_workoutExercises :: "workoutExercise_full list"

text \<open>drizzle's \<open>and(c1, ..., cn)\<close> and \<open>eq(column, value)\<close> as predicates on a row.\<close>

definition and_conds :: "('r \<Rightarrow> bool) list \<Rightarrow> 'r \<Rightarrow> bool" where
  "and_conds cs r = list_all (\<lambda>c. c r) cs"

definition eq_col :: "('r \<Rightarrow> 'a) \<Rightarrow> 'a \<Rightarrow> 'r \<Rightarrow> bool" where
  "eq_col col v r = (col r = v)"

text \<open>
  The \<open>with\<close> clause shared by the three read queries: the sets of an association row
  ordered by \<open>asc(sets.setNumber)\<close>, the association rows of a workout ordered by
  \<open>asc(workoutExercises.order)\<close>.
\<close>

definition with_sets :: "database \<Rightarrow> workoutExercise_row \<Rightarrow> workoutExercise_full" where
  "with_sets db we =
     \<lparr> wef_row = we,
       wef_exercise = find (eq_col e_id (we_exerciseId we)) (exercises db),
       wef_sets = sort_key s_setNumber
                    (filter (eq_col s_workoutExerciseId (we_id we)) (sets db)) \<rparr>"

definition with_workoutExercises :: "database \<Rightarrow> workout_row \<Rightarrow> workout_full" where
  "with_workoutExercises db w =
     \<lparr> wf_row = w,
       wf_workoutExercises =
         map (with_sets db)
           (sort_key we_order
              (filter (eq_col we_workoutId (w_id w)) (workoutExercises db))) \<rparr>"

text \<open>\<open>db.query.workouts.findMany\<close> with \<open>orderBy: [desc(workouts.startedAt)]\<close>.\<close>

definition findMany_desc_startedAt ::
  "(workout_row \<Rightarrow> bool) \<Rightarrow> database \<Rightarrow> workout_full list" where
  "findMany_desc_startedAt cond db =
     map (with_workoutExercises db)
       (sort_key (\<lambda>w. - w_startedAt w) (filter cond (workouts db)))"

text \<open>\<open>db.query.workouts.findFirst\<close>: the first matching row, or \<open>undefined\<close>.\<close>

definition findFirst :: "(workout_row \<Rightarrow> bool) \<Rightarrow> database \<Rightarrow> workout_full option" where
  "findFirst cond db = map_option (with_workoutExercises db) (find cond (workouts db))"

text \<open>
  Each function of the layer awaits one statement. The result is \<open>Inl msg\<close> when the
  statement rejects (the function throws) and \<open>Inr v\<close> when it returns \<open>v\<close>.
\<close>

definition getUserWorkouts :: "env \<Rightarrow> database \<Rightarrow> string \<Rightarrow> string + workout_full list" where
  "getUserWorkouts env db userId =
     (case env_fault env of
        Some msg \<Rightarrow> Inl msg
      | None \<Rightarrow> Inr (findMany_desc_startedAt (eq_col w_userId userId) db))"

definition getUserWorkout ::
  "env \<Rightarrow> database \<Rightarrow> string \<Rightarrow> string \<Rightarrow> string + workout_full option" where
  "getUserWorkout env db workoutId userId =
     (case env_fault env of
        Some msg \<Rightarrow> Inl msg
      | None \<Rightarrow> Inr (findFirst (and_conds [eq_col w_id workoutId, eq_col w_userId userId]) db))"

subsection \<open>Dates of the host (ECMAScript \<open>Date\<close>)\<close>

text \<open>
  A \<open>Date\<close> object holds a time value or \<open>NaN\<close> (an Invalid Date), here \<open>None\<close>.
  \<open>setHours\<close> follows the ECMAScript definition: the local time of the value keeps its day
  and gets the given time within the day; the result is converted back and clipped.
\<close>

type_synonym jsdate = "int option"

definition msPerDay :: int where
  "msPerDay = 86400000"

definition maxTime :: int where
  "maxTime = 8640000000000000"

definition TimeClip :: "int \<Rightarrow> jsdate" where
  "TimeClip t = (if abs t > maxTime then None else Some t)"

definition LocalTime :: "env \<Rightarrow> int \<Rightarrow> int" where
  "LocalTime env t = t + env_tza env t True"

definition UTC :: "env \<Rightarrow> int \<Rightarrow> int" where
  "UTC env t = t - env_tza env t False"

definition Day :: "int \<Rightarrow> int" where
  "Day t = t div msPerDay"

definition MakeTime :: "int \<Rightarrow> int \<Rightarrow> int \<Rightarrow> int \<Rightarrow> int" where
  "MakeTime h m s ms = h * 3600000 + m * 60000 + s * 1000 + ms"

definition MakeDate :: "int \<Rightarrow> int \<Rightarrow> int" where
  "MakeDate day time = day * msPerDay + time"

definition setHours :: "env \<Rightarrow> jsdate \<Rightarrow> int \<Rightarrow> int \<Rightarrow> int \<Rightarrow> int \<Rightarrow> jsdate" where
  "setHours env d h m s ms =
     (case d of
        None \<Rightarrow> None
      | Some t \<Rightarrow> TimeClip (UTC env (MakeDate (Day (LocalTime env t)) (MakeTime h m s ms))))"

text \<open>\<open>a >= b\<close> and \<open>a <= b\<close> on dates compare the time values; with \<open>NaN\<close> both are false.\<close>

definition date_ge :: "jsdate \<Rightarrow> jsdate \<Rightarrow> bool" where
  "date_ge a b = (case (a, b) of (Some x, Some y) \<Rightarrow> x \<ge> y | _ \<Rightarrow> False)"

definition date_le :: "jsdate \<Rightarrow> jsdate \<Rightarrow> bool" where
  "date_le a b = (case (a, b) of (Some x, Some y) \<Rightarrow> x \<le> y | _ \<Rightarrow> False)"

definition startOfDay :: "env \<Rightarrow> jsdate \<Rightarrow> jsdate" where
  "startOfDay env date = setHours env date 0 0 0 0"

definition endOfDay :: "env \<Rightarrow> jsdate \<Rightarrow> jsdate" where
  "endOfDay env date = setHours env date 23 59 59 999"

text \<open>
  \<open>getUserWorkoutsByDate\<close>: the \<open>and\<close> of its query holds the owner condition alone; the
  rows fetched are then filtered in memory on \<open>startedAt\<close>.
\<close>

definition getUserWorkoutsByDate ::
  "env \<Rightarrow> database \<Rightarrow> string \<Rightarrow> jsdate \<Rightarrow> string + workout_full list" where
  "getUserWorkoutsByDate env db userId date =
     (case env_fault env of
        Some msg \<Rightarrow> Inl msg
      | None \<Rightarrow>
          Inr (filter
                 (\<lambda>workout.
                    let workoutDate = Some (w_startedAt (wf_row workout))
                    in date_ge workoutDate (startOfDay env date)
                       \<and> date_le workoutDate (endOfDay env date))
                 (findMany_desc_startedAt (and_conds [eq_col w_userId userId]) db)))"

subsection \<open>Writes\<close>

text \<open>
  \<open>db.insert(workouts).values(v).returning()\<close>: the store fills \<open>id\<close>, \<open>createdAt\<close> and
  \<open>updatedAt\<close> from the column defaults and rejects a row whose id is already there.
\<close>

record workout_values =
  v_userId :: string
  v_name :: "string option"
  v_startedAt :: int
  v_completedAt :: "int option"

definition insert_workouts ::
  "env \<Rightarrow> database \<Rightarrow> workout_values \<Rightarrow> (string + workout_row list) \<times> database" where
  "insert_workouts env db v =
     (case env_fault env of
        Some msg \<Rightarrow> (Inl msg, db)
      | None \<Rightarrow>
          if env_newId env \<in> set (map w_id (workouts db))
          then (Inl ''duplicate key value violates unique constraint workouts_pkey'', db)
          else
            let row = \<lparr> w_id = env_newId env, w_userId = v_userId v, w_name = v_name v,
                        w_startedAt = v_startedAt v, w_completedAt = v_completedAt v,
                        w_createdAt = env_dbNow env, w_updatedAt = env_dbNow env \<rparr>
            in (Inr [row], db\<lparr>workouts := workouts db @ [row]\<rparr>))"

text \<open>The \<open>data\<close> argument of \<open>createWorkout\<close>.\<close>

record create_data =
  cd_name :: "string option"
  cd_startedAt :: int

text \<open>\<open>const [x] = xs\<close>: the first element, \<open>undefined\<close> when there is none.\<close>

definition first_of :: "'a list \<Rightarrow> 'a option" where
  "first_of xs = (case xs of [] \<Rightarrow> None | x # _ \<Rightarrow> Some x)"

text \<open>
  \<open>createWorkout\<close>: \<open>userId\<close> and \<open>completedAt: null\<close> are written after the spread of
  \<open>data\<close>. The insert returns one row on success, which is the result.
\<close>

definition createWorkout ::
  "env \<Rightarrow> database \<Rightarrow> create_data \<Rightarrow> string \<Rightarrow> (string + workout_row option) \<times> database" where
  "createWorkout env db data userId =
     (case insert_workouts env db
             \<lparr> v_userId = userId, v_name = cd_name data,
               v_startedAt = cd_startedAt data, v_completedAt = None \<rparr> of
        (Inl msg, db') \<Rightarrow> (Inl msg, db')
      | (Inr rows, db') \<Rightarrow> (Inr (first_of rows), db'))"

text \<open>
  The \<open>data\<close> argument of \<open>updateWorkout\<close>: an absent (or \<open>undefined\<close>) property is
  \<open>None\<close>, which \<open>set\<close> skips; \<open>Some None\<close> is an explicit \<open>null\<close>.
\<close>

record update_data =
  ud_name :: "string option option"
  ud_startedAt :: "int option"
  ud_completedAt :: "int option option"

definition set_columns :: "update_data \<Rightarrow> int \<Rightarrow> workout_row \<Rightarrow> workout_row" where
  "set_columns data now w =
     w\<lparr> w_name := (case ud_name data of None \<Rightarrow> w_name w | Some v \<Rightarrow> v),
        w_startedAt := (case ud_startedAt data of None \<Rightarrow> w_startedAt w | Some v \<Rightarrow> v),
        w_completedAt := (case ud_completedAt data of None \<Rightarrow> w_completedAt w | Some v \<Rightarrow> v),
        w_updatedAt := now \<rparr>"

text \<open>\<open>db.update(workouts).set(s).where(c).returning()\<close>.\<close>

definition update_workouts ::
  "env \<Rightarrow> database \<Rightarrow> (workout_row \<Rightarrow> workout_row) \<Rightarrow> (workout_row \<Rightarrow> bool)
     \<Rightarrow> (string + workout_row list) \<times> database" where
  "update_workouts env db s cond =
     (case env_fault env of
        Some msg \<Rightarrow> (Inl msg, db)
      | None \<Rightarrow>
          (Inr (map s (filter cond (workouts db))),
           db\<lparr>workouts := map (\<lambda>w. if cond w then s w else w) (workouts db)\<rparr>))"

definition updateWorkout ::
  "env \<Rightarrow> database \<Rightarrow> string \<Rightarrow> update_data \<Rightarrow> string
     \<Rightarrow> (string + workout_row option) \<times> database" where
  "updateWorkout env db workoutId data userId =
     (case update_workouts env db (set_columns data (env_now env))
             (and_conds [eq_col w_id workoutId, eq_col w_userId userId]) of
        (Inl msg, db') \<Rightarrow> (Inl msg, db')
      | (Inr rows, db') \<Rightarrow> (Inr (first_of rows), db'))"

section \<open>Mutation gateway (the server actions)\<close>

subsection \<open>Caller-supplied values and the zod schemas\<close>

text \<open>
  A server action receives whatever the client sent, so its input is an untyped object:
  a property read gives a value of any kind, \<open>JUndefined\<close> for a property the object
  does not have. A non-date, non-string payload is represented by \<open>JBool\<close> and \<open>JNum\<close>.
\<close>

datatype jsval = JUndefined | JNull | JBool bool | JNum int | JStr string | JDate jsdate

type_synonym jsobject = "string \<Rightarrow> jsval"

text \<open>The issue codes of zod that these schemas can raise.\<close>

datatype issue_code = invalid_type | invalid_date | invalid_string | too_small | too_big

type_synonym 'a zod = "jsval \<Rightarrow> issue_code list + 'a"

text \<open>\<open>z.string()\<close> followed by checks; every check is run and every issue is kept.\<close>

definition z_string :: "(string \<Rightarrow> issue_code list) list \<Rightarrow> string zod" where
  "z_string checks v =
     (case v of
        JStr s \<Rightarrow> (if concat (map (\<lambda>c. c s) checks) = [] then Inr s
                   else Inl (concat (map (\<lambda>c. c s) checks)))
      | _ \<Rightarrow> Inl [invalid_type])"

definition z_min :: "nat \<Rightarrow> string \<Rightarrow> issue_code list" where
  "z_min n s = (if length s < n then [too_small] else [])"

definition z_max :: "nat \<Rightarrow> string \<Rightarrow> issue_code list" where
  "z_max n s = (if length s > n then [too_big] else [])"

definition z_uuid :: "env \<Rightarrow> string \<Rightarrow> issue_code list" where
  "z_uuid env s = (if env_uuid env s then [] else [invalid_string])"

text \<open>\<open>z.date()\<close> accepts a \<open>Date\<close> object that is not an Invalid Date.\<close>

definition z_date :: "int zod" where
  "z_date v =
     (case v of
        JDate (Some t) \<Rightarrow> Inr t
      | JDate None \<Rightarrow> Inl [invalid_date]
      | _ \<Rightarrow> Inl [invalid_type])"

definition z_nullable :: "'a zod \<Rightarrow> 'a option zod" where
  "z_nullable p v = (if v = JNull then Inr None else map_sum (\<lambda>is. is) Some (p v))"

definition z_optional :: "'a zod \<Rightarrow> 'a option zod" where
  "z_optional p v = (if v = JUndefined then Inr None else map_sum (\<lambda>is. is) Some (p v))"

text \<open>
  \<open>error.flatten()\<close>: the issues under the name of the property they belong to, for the
  properties that have any.
\<close>

type_synonym details = "(string \<times> issue_code list) list"

definition issues_of :: "issue_code list + 'a \<Rightarrow> issue_code list" where
  "issues_of r = (case r of Inl is \<Rightarrow> is | Inr _ \<Rightarrow> [])"

definition flatten :: "details \<Rightarrow> details" where
  "flatten fs = filter (\<lambda>(k, is). is \<noteq> []) fs"

text \<open>
  \<open>createWorkoutSchema.safeParse\<close> and \<open>updateWorkoutSchema.safeParse\<close>. A
  \<open>z.object\<close> reads the properties of its shape and no other, so the parsed value has
  exactly the properties of the shape.
\<close>

definition createWorkoutSchema :: "jsobject \<Rightarrow> details + create_data" where
  "createWorkoutSchema input =
     (let name = z_nullable (z_string [z_min 1, z_max 100]) (input ''name'');
          startedAt = z_date (input ''startedAt'')
      in case (name, startedAt) of
           (Inr n, Inr s) \<Rightarrow> Inr \<lparr> cd_name = n, cd_startedAt = s \<rparr>
         | _ \<Rightarrow> Inl (flatten [(''name'', issues_of name),
                               (''startedAt'', issues_of startedAt)]))"

definition updateWorkoutSchema :: "env \<Rightarrow> jsobject \<Rightarrow> details + string \<times> update_data" where
  "updateWorkoutSchema env input =
     (let workoutId = z_string [z_uuid env] (input ''workoutId'');
          name = z_optional (z_nullable (z_string [z_min 1, z_max 100])) (input ''name'');
          startedAt = z_optional z_date (input ''startedAt'');
          completedAt = z_optional (z_nullable z_date) (input ''completedAt'')
      in case (workoutId, name, startedAt, completedAt) of
           (Inr i, Inr n, Inr s, Inr c) \<Rightarrow>
             Inr (i, \<lparr> ud_name = n, ud_startedAt = s, ud_completedAt = c \<rparr>)
         | _ \<Rightarrow> Inl (flatten [(''workoutId'', issues_of workoutId),
                               (''name'', issues_of name),
                               (''startedAt'', issues_of startedAt),
                               (''completedAt'', issues_of completedAt)]))"

subsection \<open>The actions\<close>

text \<open>
  What an action leaves behind besides its result: the store, the paths handed to
  \<open>revalidatePath\<close>, and the lines written with \<open>console.error\<close> (label and error).
\<close>

record world =
  wld_db :: database
  wld_revalidated :: "string list"
  wld_console :: "(string \<times> string) list"

text \<open>An async function either returns a value or throws (rejects) with a message.\<close>

datatype 'a outcome = Returned 'a | Thrown string

text \<open>\<open>ActionSuccess | ActionError\<close> of the two typed actions.\<close>

datatype action_result =
  ActionSuccess "workout_row option"
  | ActionError string "details option"

text \<open>\<open>!s\<close> for a \<open>string | null\<close>: true for \<open>null\<close> and for the empty string.\<close>

definition falsy :: "string option \<Rightarrow> bool" where
  "falsy s = (case s of None \<Rightarrow> True | Some x \<Rightarrow> x = [])"

text \<open>\<open>createWorkoutAction\<close> of \<open>app/dashboard/workout/new\<close>, the action the form calls.\<close>

definition createWorkoutAction :: "env \<Rightarrow> world \<Rightarrow> jsobject \<Rightarrow> action_result outcome \<times> world" where
  "createWorkoutAction env world input =
     (if falsy (env_auth env) then (Returned (ActionError ''Unauthorized'' None), world)
      else
        case createWorkoutSchema input of
          Inl ds \<Rightarrow> (Returned (ActionError ''Invalid input'' (Some ds)), world)
        | Inr data \<Rightarrow>
            (case createWorkout env (wld_db world) data (the (env_auth env)) of
               (Inr workout, db') \<Rightarrow>
                 (Returned (ActionSuccess workout),
                  world\<lparr> wld_db := db',
                         wld_revalidated := wld_revalidated world @ [''/dashboard''] \<rparr>)
             | (Inl err, db') \<Rightarrow>
                 (Returned (ActionError ''Failed to create workout'' None),
                  world\<lparr> wld_db := db',
                         wld_console := wld_console world
                                          @ [(''Failed to create workout:'', err)] \<rparr>)))"

text \<open>\<open>updateWorkoutAction\<close> of \<open>app/dashboard/workout/[workoutId]/actions.ts\<close>.\<close>

definition updateWorkoutAction :: "env \<Rightarrow> world \<Rightarrow> jsobject \<Rightarrow> action_result outcome \<times> world" where
  "updateWorkoutAction env world input =
     (if falsy (env_auth env) then (Returned (ActionError ''Unauthorized'' None), world)
      else
        case updateWorkoutSchema env input of
          Inl ds \<Rightarrow> (Returned (ActionError ''Invalid input'' (Some ds)), world)
        | Inr (workoutId, data) \<Rightarrow>
            (case updateWorkout env (wld_db world) workoutId data (the (env_auth env)) of
               (Inr None, db') \<Rightarrow>
                 (Returned (ActionError
                    ''Workout not found or you do not have permission to edit it'' None),
                  world\<lparr> wld_db := db' \<rparr>)
             | (Inr (Some workout), db') \<Rightarrow>
                 (Returned (ActionSuccess (Some workout)),
                  world\<lparr> wld_db := db',
                         wld_revalidated := wld_revalidated world
                           @ [''/dashboard'', ''/dashboard/workout/'' @ workoutId] \<rparr>)
             | (Inl err, db') \<Rightarrow>
                 (Returned (ActionError ''Failed to update workout'' None),
                  world\<lparr> wld_db := db',
                         wld_console := wld_console world
                                          @ [(''Failed to update workout:'', err)] \<rparr>)))"

text \<open>
  The other \<open>createWorkoutAction\<close> of the repository, which takes a \<open>FormData\<close>
  (\<open>formData.get\<close> gives \<open>null\<close>, here \<open>None\<close>, for a missing entry) and inserts into the
  store itself. Nothing is caught: the action throws whatever the insert throws. An
  Invalid Date cannot be written to a timestamp column (\<open>toISOString\<close> throws).
\<close>

datatype formData_result = FormDataSuccess string

definition createWorkoutAction_formData ::
  "env \<Rightarrow> world \<Rightarrow> (string \<Rightarrow> string option) \<Rightarrow> formData_result outcome \<times> world" where
  "createWorkoutAction_formData env world formData =
     (if falsy (env_auth env) then (Thrown ''Unauthorized'', world)
      else
        let name = formData ''name'';
            dateStr = formData ''date''
        in if falsy dateStr then (Thrown ''Date is required'', world)
           else
             case env_parseDate env (the dateStr) of
               None \<Rightarrow> (Thrown ''Invalid time value'', world)
             | Some startedAt \<Rightarrow>
                 (case insert_workouts env (wld_db world)
                         \<lparr> v_userId = the (env_auth env),
                           v_name = (if falsy name then None else name),
                           v_startedAt = startedAt, v_completedAt = None \<rparr> of
                    (Inl err, db') \<Rightarrow> (Thrown err, world\<lparr> wld_db := db' \<rparr>)
                  | (Inr rows, db') \<Rightarrow>
                      (case first_of rows of
                         None \<Rightarrow>
                           (Thrown ''Cannot read properties of undefined'',
                            world\<lparr> wld_db := db',
                                   wld_revalidated := wld_revalidated world @ [''/dashboard''] \<rparr>)
                       | Some workout \<Rightarrow>
                           (Returned (FormDataSuccess (w_id workout)),
                            world\<lparr> wld_db := db',
                                   wld_revalidated := wld_revalidated world
                                                        @ [''/dashboard''] \<rparr>))))"

section \<open>Notions of the specification\<close>

text \<open>
  The top-level order of a listing: descending by \<open>startedAt\<close>, most recent first.
\<close>

definition startedAt_descending :: "workout_full list \<Rightarrow> bool" where
  "startedAt_descending ws
     = sorted_wrt (\<lambda>a b. w_startedAt (wf_row a) \<ge> w_startedAt (wf_row b)) ws"

text \<open>
  The order below a workout: its exercises ascending by \<open>order\<close>, and the sets of each
  exercise ascending by \<open>setNumber\<close>.
\<close>

definition exercises_and_sets_ordered :: "workout_full \<Rightarrow> bool" where
  "exercises_and_sets_ordered w
     = (sorted (map (\<lambda>we. we_order (wef_row we)) (wf_workoutExercises w))
        \<and> list_all (\<lambda>we. sorted (map s_setNumber (wef_sets we))) (wf_workoutExercises w))"

text \<open>
  The children of a fetched workout are the rows of the store that refer to it, each as
  often as the store holds it: the association rows of the workout, and below each of
  them the sets of that association row.
\<close>

definition children_from_store :: "database \<Rightarrow> workout_full \<Rightarrow> bool" where
  "children_from_store db w
     = (mset (map wef_row (wf_workoutExercises w))
          = filter_mset (\<lambda>we. we_workoutId we = w_id (wf_row w)) (mset (workoutExercises db))
        \<and> list_all
            (\<lambda>we. mset (wef_sets we)
                    = filter_mset (\<lambda>s. s_workoutExerciseId s = we_id (wef_row we))
                        (mset (sets db)))
            (wf_workoutExercises w))"

text \<open>
  The local calendar day of the time value \<open>t\<close>: from 00:00:00.000 to 23:59:59.999 of the
  day that the local time of \<open>t\<close> falls on, both ends included. The day is representable
  when both ends are time values a \<open>Date\<close> can hold.
\<close>

definition in_local_day :: "env \<Rightarrow> int \<Rightarrow> int \<Rightarrow> bool" where
  "in_local_day env t s
     = (UTC env (MakeDate (Day (LocalTime env t)) (MakeTime 0 0 0 0)) \<le> s
        \<and> s \<le> UTC env (MakeDate (Day (LocalTime env t)) (MakeTime 23 59 59 999)))"

definition day_representable :: "env \<Rightarrow> int \<Rightarrow> bool" where
  "day_representable env t
     = (abs (UTC env (MakeDate (Day (LocalTime env t)) (MakeTime 0 0 0 0))) \<le> maxTime
        \<and> abs (UTC env (MakeDate (Day (LocalTime env t)) (MakeTime 23 59 59 999))) \<le> maxTime)"

text \<open>
  Inputs that fail structural validation, field by field: a \<open>name\<close> that is present,
  not \<open>null\<close>, and empty or longer than 100 characters; a timestamp that is present, not
  \<open>null\<close>, and not a valid date; a \<open>workoutId\<close> that is not a syntactically valid
  identifier.
\<close>

definition name_invalid :: "jsval \<Rightarrow> bool" where
  "name_invalid v = (case v of JStr s \<Rightarrow> length s < 1 \<or> 100 < length s | _ \<Rightarrow> False)"

definition timestamp_invalid :: "jsval \<Rightarrow> bool" where
  "timestamp_invalid v =
     (case v of JUndefined \<Rightarrow> False | JNull \<Rightarrow> False | JDate d \<Rightarrow> d = None | _ \<Rightarrow> True)"

definition workoutId_invalid :: "env \<Rightarrow> jsval \<Rightarrow> bool" where
  "workoutId_invalid env v = (case v of JStr s \<Rightarrow> \<not> env_uuid env s | _ \<Rightarrow> True)"

text \<open>
  The identity of a workout row, and two inputs that agree on the properties of the
  update schema.
\<close>

definition identity_columns :: "workout_row \<Rightarrow> string \<times> string \<times> int" where
  "identity_columns w = (w_id w, w_userId w, w_createdAt w)"

definition same_schema_fields :: "jsobject \<Rightarrow> jsobject \<Rightarrow> bool" where
  "same_schema_fields a b
     = list_all (\<lambda>k. a k = b k) [''workoutId'', ''name'', ''startedAt'', ''completedAt'']"

section \<open>Example values\<close>

text \<open>
  A host in a zone one hour east of UTC, a caller, and a store with one workout of that
  caller, started on 2024-01-16 at 00:01 UTC.
\<close>

definition ex_env :: env where
  "ex_env =
     \<lparr> env_auth = Some ''user_A'', env_now = 1705500000000,
       env_tza = (\<lambda>t isUTC. 3600000), env_fault = None,
       env_newId = ''00000000-0000-4000-8000-000000000002'', env_dbNow = 1705499999000,
       env_uuid = (\<lambda>s. length s = 36), env_parseDate = (\<lambda>s. None) \<rparr>"

definition ex_workout :: workout_row where
  "ex_workout =
     \<lparr> w_id = ''00000000-0000-4000-8000-000000000001'', w_userId = ''user_A'',
       w_name = Some ''A'', w_startedAt = 1705363260000, w_completedAt = Some 1705366860000,
       w_createdAt = 1705363260000, w_updatedAt = 1705366860000 \<rparr>"

definition ex_db :: database where
  "ex_db = \<lparr> workouts = [ex_workout], exercises = [], workoutExercises = [], sets = [] \<rparr>"

definition empty_db :: database where
  "empty_db = \<lparr> workouts = [], exercises = [], workoutExercises = [], sets = [] \<rparr>"

definition ex_patch :: update_data where
  "ex_patch = \<lparr> ud_name = None, ud_startedAt = None, ud_completedAt = Some (Some 1705370000000) \<rparr>"

definition ex_create_data :: create_data where
  "ex_create_data = \<lparr> cd_name = Some ''Leg Day'', cd_startedAt = 1705402800000 \<rparr>"

text \<open>
  A store whose association rows were inserted with \<open>order\<close> 2, 0, 1, and the sets of
  each with \<open>setNumber\<close> 3, 1, 2.
\<close>

definition ex_we :: "string \<Rightarrow> int \<Rightarrow> workoutExercise_row" where
  "ex_we i ord =
     \<lparr> we_id = i, we_workoutId = w_id ex_workout, we_exerciseId = ''bench'', we_order = ord,
       we_createdAt = 1705363260000, we_updatedAt = 1705363260000 \<rparr>"

definition ex_set :: "string \<Rightarrow> string \<Rightarrow> int \<Rightarrow> set_row" where
  "ex_set i we n =
     \<lparr> s_id = i, s_workoutExerciseId = we, s_setNumber = n, s_reps = Some 8,
       s_weight = Some ''60.00'', s_createdAt = 1705363260000, s_updatedAt = 1705363260000 \<rparr>"

definition ex_bench :: exercise_row where
  "ex_bench =
     \<lparr> e_id = ''bench'', e_userId = ''user_A'', e_name = ''Bench Press'',
       e_createdAt = 1705363260000, e_updatedAt = 1705363260000 \<rparr>"

definition ex_nested_db :: database where
  "ex_nested_db =
     \<lparr> workouts = [ex_workout],
       exercises = [ex_bench],
       workoutExercises = [ex_we ''x'' 2, ex_we ''y'' 0, ex_we ''z'' 1],
       sets = [ex_set ''x3'' ''x'' 3, ex_set ''x1'' ''x'' 1, ex_set ''x2'' ''x'' 2,
               ex_set ''y3'' ''y'' 3, ex_set ''y1'' ''y'' 1, ex_set ''y2'' ''y'' 2,
               ex_set ''z3'' ''z'' 3, ex_set ''z1'' ''z'' 1, ex_set ''z2'' ''z'' 2] \<rparr>"

text \<open>
  Three workouts of one caller, started (in local time) on 2024-01-15 at 23:59, on
  2024-01-16 at 00:01 and on 2024-01-16 at 23:58; \<open>ex_noon\<close> is noon of 2024-01-16.
\<close>

definition ex_started :: "string \<Rightarrow> int \<Rightarrow> workout_row" where
  "ex_started i t =
     \<lparr> w_id = i, w_userId = ''user_A'', w_name = None, w_startedAt = t,
       w_completedAt = None, w_createdAt = t, w_updatedAt = t \<rparr>"

definition ex_dated_db :: database where
  "ex_dated_db =
     \<lparr> workouts = [ex_started ''w1'' 1705359540000, ex_started ''w2'' 1705359660000,
                   ex_started ''w3'' 1705445880000],
       exercises = [], workoutExercises = [], sets = [] \<rparr>"

definition ex_noon :: int where
  "ex_noon = 1705402800000"

text \<open>
  An object literal; a world around the example store; a host whose store connection is
  down; the entries of a form.
\<close>

definition obj :: "(string \<times> jsval) list \<Rightarrow> jsobject" where
  "obj kvs k = (case map_of kvs k of None \<Rightarrow> JUndefined | Some v \<Rightarrow> v)"

definition ex_world :: world where
  "ex_world = \<lparr> wld_db = ex_db, wld_revalidated = [], wld_console = [] \<rparr>"

definition ex_env_down :: env where
  "ex_env_down = ex_env\<lparr> env_fault := Some ''Connection terminated unexpectedly'' \<rparr>"

definition ex_form :: "string \<Rightarrow> string option" where
  "ex_form k = (if k = ''name'' then Some ''Leg Day''
                else if k = ''date'' then Some ''2024-01-16'' else None)"

section \<open>Properties of the query layer\<close>

subsection \<open>Rows matched by the combined filters\<close>

lemma pk_unique:
  "primary_key_ok db \<Longrightarrow> w \<in> set (workouts db) \<Longrightarrow> r \<in> set (workouts db)
     \<Longrightarrow> w_id r = w_id w \<Longrightarrow> r = w"
  unfolding primary_key_ok_def by (meson distinct_map inj_onD)

lemma and_conds_id_user [simp]:
  "and_conds [eq_col w_id i, eq_col w_userId u] r \<longleftrightarrow> w_id r = i \<and> w_userId r = u"
  by (simp add: and_conds_def eq_col_def)

lemma and_conds_user [simp]:
  "and_conds [eq_col w_userId u] r \<longleftrightarrow> w_userId r = u"
  by (simp add: and_conds_def eq_col_def)

lemma no_row_for_other_user:
  assumes "primary_key_ok db" "w \<in> set (workouts db)" "w_userId w \<noteq> B"
  shows "\<forall>r \<in> set (workouts db). \<not> and_conds [eq_col w_id (w_id w), eq_col w_userId B] r"
proof
  fix r assume r: "r \<in> set (workouts db)"
  show "\<not> and_conds [eq_col w_id (w_id w), eq_col w_userId B] r"
  proof
    assume "and_conds [eq_col w_id (w_id w), eq_col w_userId B] r"
    then have "w_id r = w_id w" and u: "w_userId r = B" by simp_all
    then have "r = w" using pk_unique [OF assms(1) assms(2) r] by simp
    with u assms(3) show False by simp
  qed
qed

lemma no_row_for_absent_id:
  assumes "i \<notin> set (map w_id (workouts db))"
  shows "\<forall>r \<in> set (workouts db). \<not> and_conds [eq_col w_id i, eq_col w_userId B] r"
  using assms by auto

lemma findFirst_no_match:
  "\<forall>r \<in> set (workouts db). \<not> cond r \<Longrightarrow> findFirst cond db = None"
  by (simp add: findFirst_def find_None_iff)

lemma update_workouts_no_match:
  assumes "\<forall>r \<in> set (workouts db). \<not> cond r" "env_fault env = None"
  shows "update_workouts env db s cond = (Inr [], db)"
proof -
  have "filter cond (workouts db) = []" using assms(1) by (simp add: filter_empty_conv)
  moreover have "map (\<lambda>w. if cond w then s w else w) (workouts db) = workouts db"
    by (rule map_idI) (simp add: assms(1))
  ultimately show ?thesis using assms(2) by (simp add: update_workouts_def)
qed

lemma getUserWorkout_no_match:
  "\<forall>r \<in> set (workouts db). \<not> and_conds [eq_col w_id i, eq_col w_userId u] r
    \<Longrightarrow> getUserWorkout env db i u
          = (case env_fault env of Some msg \<Rightarrow> Inl msg | None \<Rightarrow> Inr None)"
  by (simp only: getUserWorkout_def findFirst_no_match)

lemma updateWorkout_no_match:
  assumes "\<forall>r \<in> set (workouts db). \<not> and_conds [eq_col w_id i, eq_col w_userId u] r"
  shows "updateWorkout env db i data u
        = (case env_fault env of Some msg \<Rightarrow> (Inl msg, db) | None \<Rightarrow> (Inr None, db))"
proof (cases "env_fault env")
  case None
  then show ?thesis
    by (simp add: updateWorkout_def update_workouts_no_match [OF assms None] first_of_def)
next
  case (Some msg)
  then show ?thesis by (simp add: updateWorkout_def update_workouts_def)
qed

subsection \<open>Ownership isolation\<close>

text \<open>
  Claim C1. Let \<open>w\<close> be a workout of the store owned by \<open>A\<close>, and \<open>B\<close> another user.
  When the store executes the statement, \<open>getUserWorkout\<close> on the id of \<open>w\<close> by \<open>B\<close>
  returns \<open>undefined\<close> and \<open>updateWorkout\<close> returns \<open>undefined\<close> and changes no row.
  Whatever the store does, \<open>B\<close> gets from both calls what \<open>B\<close> gets from a store \<open>db0\<close>
  that holds no workout with this id.
\<close>

theorem ownership_isolation:
  assumes "primary_key_ok db" and "w \<in> set (workouts db)" and "w_userId w = A" and "B \<noteq> A"
    and "w_id w \<notin> set (map w_id (workouts db0))"
  shows "(env_fault env = None \<longrightarrow>
            getUserWorkout env db (w_id w) B = Inr None
          \<and> updateWorkout env db (w_id w) patch B = (Inr None, db))
       \<and> getUserWorkout env db (w_id w) B = getUserWorkout env db0 (w_id w) B
       \<and> fst (updateWorkout env db (w_id w) patch B)
           = fst (updateWorkout env db0 (w_id w) patch B)
       \<and> snd (updateWorkout env db (w_id w) patch B) = db"
proof -
  have "w_userId w \<noteq> B" using assms(3,4) by simp
  then have a: "\<forall>r \<in> set (workouts db).
                  \<not> and_conds [eq_col w_id (w_id w), eq_col w_userId B] r"
    by (rule no_row_for_other_user [OF assms(1) assms(2)])
  have b: "\<forall>r \<in> set (workouts db0).
             \<not> and_conds [eq_col w_id (w_id w), eq_col w_userId B] r"
    using assms(5) by (rule no_row_for_absent_id)
  note g = getUserWorkout_no_match [OF a] getUserWorkout_no_match [OF b]
  note u = updateWorkout_no_match [OF a] updateWorkout_no_match [OF b]
  show ?thesis
  proof (cases "env_fault env")
    case None
    then show ?thesis by (simp add: g u)
  next
    case (Some msg)
    then show ?thesis by (simp add: g u)
  qed
qed

theorem ownership_isolation_witness:
  "getUserWorkout ex_env ex_db (w_id ex_workout) ''user_B'' = Inr None
   \<and> updateWorkout ex_env ex_db (w_id ex_workout) ex_patch ''user_B'' = (Inr None, ex_db)
   \<and> getUserWorkout ex_env empty_db (w_id ex_workout) ''user_B'' = Inr None
   \<and> fst (updateWorkout ex_env empty_db (w_id ex_workout) ex_patch ''user_B'') = Inr None"
proof -
  have h1: "primary_key_ok ex_db" by (simp add: primary_key_ok_def ex_db_def)
  have h2: "ex_workout \<in> set (workouts ex_db)" by (simp add: ex_db_def)
  have h3: "w_userId ex_workout = ''user_A''" by (simp add: ex_workout_def)
  have h4: "''user_B'' \<noteq> ''user_A''" by simp
  have h5: "w_id ex_workout \<notin> set (map w_id (workouts empty_db))" by (simp add: empty_db_def)
  have h6: "env_fault ex_env = None" by (simp add: ex_env_def)
  note t = ownership_isolation [OF h1 h2 h3 h4 h5, of ex_env ex_patch]
  from t h6
  have a: "getUserWorkout ex_env ex_db (w_id ex_workout) ''user_B'' = Inr None"
    and b: "updateWorkout ex_env ex_db (w_id ex_workout) ex_patch ''user_B'' = (Inr None, ex_db)"
    by blast+
  from t
  have c: "getUserWorkout ex_env ex_db (w_id ex_workout) ''user_B''
            = getUserWorkout ex_env empty_db (w_id ex_workout) ''user_B''"
    and d: "fst (updateWorkout ex_env ex_db (w_id ex_workout) ex_patch ''user_B'')
            = fst (updateWorkout ex_env empty_db (w_id ex_workout) ex_patch ''user_B'')"
    by blast+
  have c': "getUserWorkout ex_env empty_db (w_id ex_workout) ''user_B'' = Inr None"
    by (rule trans [OF c [symmetric] a])
  have "fst (updateWorkout ex_env ex_db (w_id ex_workout) ex_patch ''user_B'') = Inr None"
    by (simp add: b)
  then have d': "fst (updateWorkout ex_env empty_db (w_id ex_workout) ex_patch ''user_B'')
                   = Inr None"
    by (rule trans [OF d [symmetric]])
  from a b c' d' show ?thesis by blast
qed

subsection \<open>The row of an owner\<close>

lemma filter_unique_key:
  "distinct (map f xs) \<Longrightarrow> x \<in> set xs \<Longrightarrow> filter (\<lambda>r. f r = f x) xs = [x]"
proof (induction xs)
  case Nil
  then show ?case by simp
next
  case (Cons a xs)
  show ?case
  proof (cases "a = x")
    case True
    with Cons.prems have "\<forall>r \<in> set xs. f r \<noteq> f x" by (auto simp: image_iff)
    then have "filter (\<lambda>r. f r = f x) xs = []" by (simp add: filter_empty_conv)
    with True show ?thesis by simp
  next
    case False
    with Cons.prems have x: "x \<in> set xs" and "f a \<noteq> f x" by auto
    with Cons show ?thesis by simp
  qed
qed

lemma filter_owned_row:
  assumes "primary_key_ok db" "w \<in> set (workouts db)"
  shows "filter (and_conds [eq_col w_id (w_id w), eq_col w_userId (w_userId w)]) (workouts db)
         = [w]"
proof -
  have "filter (and_conds [eq_col w_id (w_id w), eq_col w_userId (w_userId w)]) (workouts db)
        = filter (\<lambda>r. w_id r = w_id w) (workouts db)"
    by (rule filter_cong) (use assms pk_unique in auto)
  also have "\<dots> = [w]"
    using assms by (simp add: primary_key_ok_def filter_unique_key)
  finally show ?thesis .
qed

lemma map_owned_row:
  assumes "primary_key_ok db" "w \<in> set (workouts db)"
  shows "map (\<lambda>r. if w_id r = w_id w \<and> w_userId r = w_userId w then s r else r)
           (workouts db)
         = map (\<lambda>r. if r = w then s w else r) (workouts db)"
  by (rule map_cong) (use assms pk_unique in auto)

lemma updateWorkout_owned:
  assumes "primary_key_ok db" "w \<in> set (workouts db)" "env_fault env = None"
  shows "updateWorkout env db (w_id w) data (w_userId w)
         = (Inr (Some (set_columns data (env_now env) w)),
            db\<lparr>workouts := map (\<lambda>r. if r = w then set_columns data (env_now env) w else r)
                               (workouts db)\<rparr>)"
  using assms(3)
  by (simp add: updateWorkout_def update_workouts_def first_of_def
      filter_owned_row [OF assms(1,2)] map_owned_row [OF assms(1,2)])

lemma find_appended:
  "\<forall>r \<in> set xs. \<not> P r \<Longrightarrow> P x \<Longrightarrow> find P (xs @ [x]) = Some x"
  by (induction xs) simp_all

subsection \<open>Partial update\<close>

text \<open>
  Claim C2. For a workout \<open>w\<close> of the store owned by the caller and any patch,
  \<open>updateWorkout\<close> returns the updated row \<open>w'\<close> and stores it in the place of \<open>w\<close>,
  every other row and table staying as it was. In \<open>w'\<close>, each of \<open>name\<close>, \<open>startedAt\<close>
  and \<open>completedAt\<close> has the value of the patch when the patch has the field and the
  value of \<open>w\<close> otherwise; \<open>updatedAt\<close> is the current time, also for the empty patch;
  \<open>id\<close>, \<open>userId\<close> and \<open>createdAt\<close> are those of \<open>w\<close>.
\<close>

theorem partial_update:
  assumes "primary_key_ok db" and "w \<in> set (workouts db)" and "w_userId w = u"
    and "env_fault env = None"
  shows "\<exists>w'. updateWorkout env db (w_id w) data u
               = (Inr (Some w'),
                  db\<lparr>workouts := map (\<lambda>r. if r = w then w' else r) (workouts db)\<rparr>)
           \<and> w_name w' = (case ud_name data of None \<Rightarrow> w_name w | Some v \<Rightarrow> v)
           \<and> w_startedAt w' = (case ud_startedAt data of None \<Rightarrow> w_startedAt w | Some v \<Rightarrow> v)
           \<and> w_completedAt w'
               = (case ud_completedAt data of None \<Rightarrow> w_completedAt w | Some v \<Rightarrow> v)
           \<and> w_updatedAt w' = env_now env
           \<and> w_id w' = w_id w \<and> w_userId w' = w_userId w \<and> w_createdAt w' = w_createdAt w"
proof -
  have "updateWorkout env db (w_id w) data u
         = (Inr (Some (set_columns data (env_now env) w)),
            db\<lparr>workouts := map (\<lambda>r. if r = w then set_columns data (env_now env) w else r)
                               (workouts db)\<rparr>)"
    using updateWorkout_owned [OF assms(1,2,4)] assms(3) by simp
  then show ?thesis
    by (intro exI [of _ "set_columns data (env_now env) w"]) (simp add: set_columns_def)
qed

theorem partial_update_witness:
  "\<exists>w'. updateWorkout ex_env ex_db (w_id ex_workout) ex_patch ''user_A''
           = (Inr (Some w'), ex_db\<lparr>workouts := [w']\<rparr>)
        \<and> w_name w' = Some ''A'' \<and> w_startedAt w' = 1705363260000
        \<and> w_completedAt w' = Some 1705370000000 \<and> w_updatedAt w' = 1705500000000
        \<and> w_id w' = w_id ex_workout \<and> w_userId w' = ''user_A''
        \<and> w_createdAt w' = 1705363260000"
proof -
  have h1: "primary_key_ok ex_db" by (simp add: primary_key_ok_def ex_db_def)
  have h2: "ex_workout \<in> set (workouts ex_db)" by (simp add: ex_db_def)
  have h3: "w_userId ex_workout = ''user_A''" by (simp add: ex_workout_def)
  have h4: "env_fault ex_env = None" by (simp add: ex_env_def)
  from partial_update [OF h1 h2 h3 h4, of ex_patch]
  obtain w' where
    u: "updateWorkout ex_env ex_db (w_id ex_workout) ex_patch ''user_A''
          = (Inr (Some w'),
             ex_db\<lparr>workouts := map (\<lambda>r. if r = ex_workout then w' else r) (workouts ex_db)\<rparr>)"
    and f: "w_name w' = (case ud_name ex_patch of None \<Rightarrow> w_name ex_workout | Some v \<Rightarrow> v)"
      "w_startedAt w'
         = (case ud_startedAt ex_patch of None \<Rightarrow> w_startedAt ex_workout | Some v \<Rightarrow> v)"
      "w_completedAt w'
         = (case ud_completedAt ex_patch of None \<Rightarrow> w_completedAt ex_workout | Some v \<Rightarrow> v)"
      "w_updatedAt w' = env_now ex_env"
      "w_id w' = w_id ex_workout" "w_userId w' = w_userId ex_workout"
      "w_createdAt w' = w_createdAt ex_workout"
    by blast
  have "map (\<lambda>r. if r = ex_workout then w' else r) (workouts ex_db) = [w']"
    by (simp add: ex_db_def)
  with u have "updateWorkout ex_env ex_db (w_id ex_workout) ex_patch ''user_A''
           = (Inr (Some w'), ex_db\<lparr>workouts := [w']\<rparr>)"
    by simp
  moreover from f have "w_name w' = Some ''A''" "w_startedAt w' = 1705363260000"
    "w_completedAt w' = Some 1705370000000" "w_updatedAt w' = 1705500000000"
    "w_id w' = w_id ex_workout" "w_userId w' = ''user_A''" "w_createdAt w' = 1705363260000"
    by (simp_all add: ex_patch_def ex_workout_def ex_env_def)
  ultimately show ?thesis by blast
qed

subsection \<open>Create, then get\<close>

text \<open>
  Claim C5. When the store executes the insert and the generated id is new,
  \<open>createWorkout\<close> appends one row and returns it: its owner is the \<open>userId\<close> argument,
  its \<open>completedAt\<close> is absent, its \<open>name\<close> and \<open>startedAt\<close> are those of \<open>data\<close>. A
  \<open>getUserWorkout\<close> of the returned id by the same caller then returns that row, with
  the same \<open>name\<close>, the same \<open>startedAt\<close> and \<open>completedAt\<close> still absent.
\<close>

theorem create_get_round_trip:
  assumes "env_fault env = None" and "env_newId env \<notin> set (map w_id (workouts db))"
    and "env_fault env' = None"
  shows "\<exists>row db' full.
           createWorkout env db data A = (Inr (Some row), db')
         \<and> workouts db' = workouts db @ [row]
         \<and> w_userId row = A \<and> w_completedAt row = None
         \<and> w_name row = cd_name data \<and> w_startedAt row = cd_startedAt data
         \<and> getUserWorkout env' db' (w_id row) A = Inr (Some full)
         \<and> w_name (wf_row full) = cd_name data
         \<and> w_startedAt (wf_row full) = cd_startedAt data
         \<and> w_completedAt (wf_row full) = None
         \<and> wf_row full = row"
proof -
  define row where "row = \<lparr> w_id = env_newId env, w_userId = A, w_name = cd_name data,
                        w_startedAt = cd_startedAt data, w_completedAt = None,
                        w_createdAt = env_dbNow env, w_updatedAt = env_dbNow env \<rparr>"
  define db' where "db' = db\<lparr>workouts := workouts db @ [row]\<rparr>"
  have c: "createWorkout env db data A = (Inr (Some row), db')"
    using assms(1,2)
    by (simp add: createWorkout_def insert_workouts_def first_of_def row_def db'_def Let_def)
  have "\<forall>r \<in> set (workouts db). \<not> and_conds [eq_col w_id (w_id row), eq_col w_userId A] r"
    using assms(2) by (auto simp: row_def image_iff)
  moreover have "and_conds [eq_col w_id (w_id row), eq_col w_userId A] row"
    by (simp add: row_def)
  ultimately
  have "find (and_conds [eq_col w_id (w_id row), eq_col w_userId A]) (workouts db') = Some row"
    unfolding db'_def by (simp add: find_appended)
  then have g: "getUserWorkout env' db' (w_id row) A
                 = Inr (Some (with_workoutExercises db' row))"
    using assms(3) by (simp add: getUserWorkout_def findFirst_def)
  show ?thesis
    apply (rule exI [of _ row], rule exI [of _ db'])
    apply (rule exI [of _ "with_workoutExercises db' row"])
    apply (simp add: c g)
    apply (simp add: db'_def row_def with_workoutExercises_def)
    done
qed

theorem create_get_round_trip_witness:
  "\<exists>row db' full.
     createWorkout ex_env ex_db ex_create_data ''user_A'' = (Inr (Some row), db')
   \<and> workouts db' = [ex_workout, row]
   \<and> w_userId row = ''user_A'' \<and> w_completedAt row = None
   \<and> getUserWorkout ex_env db' (w_id row) ''user_A'' = Inr (Some full)
   \<and> w_name (wf_row full) = Some ''Leg Day''
   \<and> w_startedAt (wf_row full) = 1705402800000
   \<and> w_completedAt (wf_row full) = None"
proof -
  have h1: "env_fault ex_env = None" by (simp add: ex_env_def)
  have h2: "env_newId ex_env \<notin> set (map w_id (workouts ex_db))"
    by (simp add: ex_env_def ex_db_def ex_workout_def)
  from create_get_round_trip [OF h1 h2 h1, of ex_create_data "''user_A''"]
  obtain row db' full where
    c: "createWorkout ex_env ex_db ex_create_data ''user_A'' = (Inr (Some row), db')"
    and d: "workouts db' = workouts ex_db @ [row]"
    and r: "w_userId row = ''user_A''" "w_completedAt row = None"
    and g: "getUserWorkout ex_env db' (w_id row) ''user_A'' = Inr (Some full)"
    and f: "w_name (wf_row full) = cd_name ex_create_data"
      "w_startedAt (wf_row full) = cd_startedAt ex_create_data"
      "w_completedAt (wf_row full) = None"
    by blast
  from d have d': "workouts db' = [ex_workout, row]" by (simp add: ex_db_def)
  from f have f': "w_name (wf_row full) = Some ''Leg Day''"
    "w_startedAt (wf_row full) = 1705402800000"
    by (simp_all add: ex_create_data_def)
  from c d' r g f' f(3) show ?thesis by blast
qed

subsection \<open>Ordering of the nested fetch\<close>

lemma with_sets_row [simp]: "wef_row (with_sets db we) = we"
  by (simp add: with_sets_def)

lemma with_sets_sorted: "sorted (map s_setNumber (wef_sets (with_sets db we)))"
  by (simp add: with_sets_def sorted_sort_key)

lemma with_sets_mset:
  "mset (wef_sets (with_sets db we))
     = filter_mset (\<lambda>s. s_workoutExerciseId s = we_id we) (mset (sets db))"
  by (simp add: with_sets_def eq_col_def)

lemma with_workoutExercises_row [simp]: "wf_row (with_workoutExercises db w) = w"
  by (simp add: with_workoutExercises_def)

lemma with_workoutExercises_ordered:
  "exercises_and_sets_ordered (with_workoutExercises db w)"
proof -
  have "map (\<lambda>we. we_order (wef_row we)) (wf_workoutExercises (with_workoutExercises db w))
        = map we_order (sort_key we_order
                          (filter (eq_col we_workoutId (w_id w)) (workoutExercises db)))"
    by (simp add: with_workoutExercises_def comp_def)
  then have "sorted (map (\<lambda>we. we_order (wef_row we))
                       (wf_workoutExercises (with_workoutExercises db w)))"
    by (simp only: sorted_sort_key)
  moreover have "list_all (\<lambda>we. sorted (map s_setNumber (wef_sets we)))
                   (wf_workoutExercises (with_workoutExercises db w))"
    by (simp add: with_workoutExercises_def list_all_iff with_sets_sorted)
  ultimately show ?thesis by (simp only: exercises_and_sets_ordered_def)
qed

lemma with_workoutExercises_from_store:
  "children_from_store db (with_workoutExercises db w)"
proof -
  have "map wef_row (wf_workoutExercises (with_workoutExercises db w))
        = sort_key we_order (filter (eq_col we_workoutId (w_id w)) (workoutExercises db))"
    by (simp add: with_workoutExercises_def comp_def)
  then have "mset (map wef_row (wf_workoutExercises (with_workoutExercises db w)))
        = filter_mset (\<lambda>we. we_workoutId we = w_id w) (mset (workoutExercises db))"
    by (simp add: eq_col_def)
  moreover have "list_all
            (\<lambda>we. mset (wef_sets we)
                    = filter_mset (\<lambda>s. s_workoutExerciseId s = we_id (wef_row we))
                        (mset (sets db)))
            (wf_workoutExercises (with_workoutExercises db w))"
    by (simp add: with_workoutExercises_def list_all_iff with_sets_mset)
  ultimately show ?thesis by (simp add: children_from_store_def)
qed

lemma findMany_descending: "startedAt_descending (findMany_desc_startedAt cond db)"
proof -
  have "sorted (map (\<lambda>w. - w_startedAt w)
                  (sort_key (\<lambda>w. - w_startedAt w) (filter cond (workouts db))))"
    by (rule sorted_sort_key)
  then have "sorted_wrt (\<lambda>a b. w_startedAt b \<le> w_startedAt a)
               (sort_key (\<lambda>w. - w_startedAt w) (filter cond (workouts db)))"
    by (simp add: sorted_map)
  then show ?thesis
    by (simp add: startedAt_descending_def findMany_desc_startedAt_def sorted_wrt_map)
qed

lemma findMany_children:
  "list_all exercises_and_sets_ordered (findMany_desc_startedAt cond db)
   \<and> list_all (children_from_store db) (findMany_desc_startedAt cond db)"
  by (simp add: findMany_desc_startedAt_def list_all_iff
      with_workoutExercises_ordered with_workoutExercises_from_store)

lemma findMany_rows:
  "mset (map wf_row (findMany_desc_startedAt cond db)) = filter_mset cond (mset (workouts db))"
  by (simp add: findMany_desc_startedAt_def comp_def)

text \<open>
  Claim C6. Whatever the storage order of the rows, when the store executes the query:
  \<open>getUserWorkouts\<close> returns the workouts of the owner, each once per stored row,
  descending by \<open>startedAt\<close>; every workout it returns, and the workout \<open>getUserWorkout\<close>
  returns, has its exercises ascending by \<open>order\<close> and below each exercise the sets
  ascending by \<open>setNumber\<close>, and these children are the rows of the store that refer to
  their parent.
\<close>

theorem nested_fetch_ordering:
  assumes "env_fault env = None"
  shows "(\<exists>ws. getUserWorkouts env db u = Inr ws
              \<and> startedAt_descending ws
              \<and> list_all exercises_and_sets_ordered ws
              \<and> list_all (children_from_store db) ws
              \<and> mset (map wf_row ws) = filter_mset (\<lambda>w. w_userId w = u) (mset (workouts db)))
       \<and> (\<exists>r. getUserWorkout env db i u = Inr r
              \<and> (case r of None \<Rightarrow> True
                  | Some w \<Rightarrow> exercises_and_sets_ordered w \<and> children_from_store db w))"
proof -
  have "getUserWorkouts env db u = Inr (findMany_desc_startedAt (eq_col w_userId u) db)"
    using assms by (simp add: getUserWorkouts_def)
  moreover have "mset (map wf_row (findMany_desc_startedAt (eq_col w_userId u) db))
                 = filter_mset (\<lambda>w. w_userId w = u) (mset (workouts db))"
    unfolding findMany_rows by (rule filter_mset_cong) (simp_all add: eq_col_def)
  ultimately have first: "\<exists>ws. getUserWorkouts env db u = Inr ws
              \<and> startedAt_descending ws
              \<and> list_all exercises_and_sets_ordered ws
              \<and> list_all (children_from_store db) ws
              \<and> mset (map wf_row ws) = filter_mset (\<lambda>w. w_userId w = u) (mset (workouts db))"
    using findMany_descending findMany_children by blast
  have "getUserWorkout env db i u
          = Inr (findFirst (and_conds [eq_col w_id i, eq_col w_userId u]) db)"
    using assms by (simp add: getUserWorkout_def)
  moreover have "case findFirst c db of None \<Rightarrow> True
                 | Some w \<Rightarrow> exercises_and_sets_ordered w \<and> children_from_store db w" for c
    by (cases "find c (workouts db)")
       (simp_all add: findFirst_def with_workoutExercises_ordered with_workoutExercises_from_store)
  ultimately have second: "\<exists>r. getUserWorkout env db i u = Inr r
              \<and> (case r of None \<Rightarrow> True
                  | Some w \<Rightarrow> exercises_and_sets_ordered w \<and> children_from_store db w)"
    by simp
  from first second show ?thesis by (rule conjI)
qed

lemmas ex_nested_defs =
  ex_nested_db_def ex_we_def ex_set_def ex_workout_def ex_bench_def ex_env_def

theorem nested_fetch_ordering_witness:
  "(\<exists>ws. getUserWorkouts ex_env ex_nested_db ''user_A'' = Inr ws
         \<and> startedAt_descending ws \<and> list_all exercises_and_sets_ordered ws)
   \<and> (\<exists>w. getUserWorkout ex_env ex_nested_db (w_id ex_workout) ''user_A'' = Inr (Some w)
         \<and> exercises_and_sets_ordered w
         \<and> map (\<lambda>we. we_order (wef_row we)) (wf_workoutExercises w) = [0, 1, 2]
         \<and> map (\<lambda>we. map s_setNumber (wef_sets we)) (wf_workoutExercises w)
             = [[1, 2, 3], [1, 2, 3], [1, 2, 3]])"
proof -
  have h: "env_fault ex_env = None" by (simp add: ex_env_def)
  note t = nested_fetch_ordering [OF h, of ex_nested_db "''user_A''" "w_id ex_workout"]
  from t have first: "\<exists>ws. getUserWorkouts ex_env ex_nested_db ''user_A'' = Inr ws
         \<and> startedAt_descending ws \<and> list_all exercises_and_sets_ordered ws"
    by blast
  from t obtain r where
    r: "getUserWorkout ex_env ex_nested_db (w_id ex_workout) ''user_A'' = Inr r"
    and o: "case r of None \<Rightarrow> True
            | Some w \<Rightarrow> exercises_and_sets_ordered w \<and> children_from_store ex_nested_db w"
    by blast
  have f: "find (and_conds [eq_col w_id (w_id ex_workout), eq_col w_userId ''user_A''])
             (workouts ex_nested_db) = Some ex_workout"
    by (simp add: ex_nested_db_def ex_workout_def)
  have e: "getUserWorkout ex_env ex_nested_db (w_id ex_workout) ''user_A''
           = Inr (Some (with_workoutExercises ex_nested_db ex_workout))"
    using h by (simp add: getUserWorkout_def findFirst_def f)
  with r have "r = Some (with_workoutExercises ex_nested_db ex_workout)" by simp
  with o have s: "exercises_and_sets_ordered (with_workoutExercises ex_nested_db ex_workout)"
    by simp
  have k1: "map (\<lambda>we. we_order (wef_row we))
              (wf_workoutExercises (with_workoutExercises ex_nested_db ex_workout)) = [0, 1, 2]"
    by (simp add: with_workoutExercises_def with_sets_def eq_col_def ex_nested_defs)
  have k2: "map (\<lambda>we. map s_setNumber (wef_sets we))
              (wf_workoutExercises (with_workoutExercises ex_nested_db ex_workout))
            = [[1, 2, 3], [1, 2, 3], [1, 2, 3]]"
    by (simp add: with_workoutExercises_def with_sets_def eq_col_def ex_nested_defs)
  from e s k1 k2
  have second: "\<exists>w. getUserWorkout ex_env ex_nested_db (w_id ex_workout) ''user_A'' = Inr (Some w)
         \<and> exercises_and_sets_ordered w
         \<and> map (\<lambda>we. we_order (wef_row we)) (wf_workoutExercises w) = [0, 1, 2]
         \<and> map (\<lambda>we. map s_setNumber (wef_sets we)) (wf_workoutExercises w)
             = [[1, 2, 3], [1, 2, 3], [1, 2, 3]]"
    by (intro exI [of _ "with_workoutExercises ex_nested_db ex_workout"] conjI)
  from first second show ?thesis by (rule conjI)
qed

subsection \<open>Date filtering\<close>

lemma day_bounds:
  fixes m :: int
  assumes "0 < m"
  shows "(D * m \<le> y \<and> y \<le> D * m + (m - 1)) \<longleftrightarrow> y div m = D"
proof
  assume b: "D * m \<le> y \<and> y \<le> D * m + (m - 1)"
  define r where "r = y - D * m"
  have r: "0 \<le> r" "r < m" using b by (simp_all add: r_def)
  have "y = r + D * m" by (simp add: r_def)
  then have "y div m = (r + D * m) div m" by simp
  also have "\<dots> = D + r div m" using assms by simp
  also have "r div m = 0" using r by (rule div_pos_pos_trivial)
  finally show "y div m = D" by simp
next
  assume d: "y div m = D"
  have "y div m * m + y mod m = y" by (rule div_mult_mod_eq)
  moreover have "0 \<le> y mod m" using assms by (rule pos_mod_sign)
  moreover have "y mod m < m" using assms by (rule pos_mod_bound)
  ultimately show "D * m \<le> y \<and> y \<le> D * m + (m - 1)" using d by auto
qed

lemma day_filter_is_in_local_day:
  assumes "day_representable env t"
  shows "(date_ge (Some s) (startOfDay env (Some t)) \<and> date_le (Some s) (endOfDay env (Some t)))
         = in_local_day env t s"
  using assms
  by (simp add: day_representable_def in_local_day_def startOfDay_def endOfDay_def
      setHours_def TimeClip_def date_ge_def date_le_def)

lemma and_conds_single: "and_conds [c] = c"
  by (simp add: and_conds_def fun_eq_iff)

lemma findMany_row_set:
  "set (map wf_row (findMany_desc_startedAt cond db)) = {w \<in> set (workouts db). cond w}"
  by (simp add: findMany_desc_startedAt_def image_image)

lemma in_local_day_fixed_offset:
  assumes "\<forall>x b. env_tza env x b = c"
  shows "in_local_day env t s = (Day (LocalTime env s) = Day (LocalTime env t))"
proof -
  have m: "(0::int) < msPerDay" by (simp add: msPerDay_def)
  have "in_local_day env t s
        = (Day (t + c) * msPerDay \<le> s + c \<and> s + c \<le> Day (t + c) * msPerDay + (msPerDay - 1))"
    using assms
    by (simp add: in_local_day_def UTC_def LocalTime_def MakeDate_def MakeTime_def msPerDay_def)
       linarith
  also have "\<dots> = ((s + c) div msPerDay = Day (t + c))"
    by (rule day_bounds [OF m])
  finally show ?thesis using assms by (simp add: Day_def LocalTime_def)
qed

text \<open>
  Claim C3. For a date \<open>t\<close> whose local calendar day is representable,
  \<open>getUserWorkoutsByDate\<close> returns the listing of \<open>getUserWorkouts\<close> for the owner
  restricted to the workouts whose \<open>startedAt\<close> lies in the local calendar day of \<open>t\<close>,
  from 00:00:00.000 to 23:59:59.999 with both ends included: exactly the owner's rows
  in that range, in the descending order of the full listing. In a zone of fixed
  offset, that range holds exactly the time values whose local day is the local day of \<open>t\<close>.
\<close>

theorem date_filtering:
  assumes "env_fault env = None" and "day_representable env t"
  shows "(\<exists>ws all.
            getUserWorkoutsByDate env db u (Some t) = Inr ws
          \<and> getUserWorkouts env db u = Inr all
          \<and> ws = filter (\<lambda>w. in_local_day env t (w_startedAt (wf_row w))) all
          \<and> set (map wf_row ws)
              = {w \<in> set (workouts db). w_userId w = u \<and> in_local_day env t (w_startedAt w)}
          \<and> startedAt_descending ws)
       \<and> ((\<forall>x b. env_tza env x b = c) \<longrightarrow>
            (\<forall>s. in_local_day env t s = (Day (LocalTime env s) = Day (LocalTime env t))))"
proof -
  define all where "all = findMany_desc_startedAt (eq_col w_userId u) db"
  define ws where "ws = filter (\<lambda>w. in_local_day env t (w_startedAt (wf_row w))) all"
  have a: "getUserWorkouts env db u = Inr all"
    using assms(1) by (simp add: getUserWorkouts_def all_def)
  have b: "getUserWorkoutsByDate env db u (Some t) = Inr ws"
    using assms(1)
    by (simp add: getUserWorkoutsByDate_def and_conds_single
        day_filter_is_in_local_day [OF assms(2)] ws_def all_def)
  have "set (map wf_row all) = {w \<in> set (workouts db). w_userId w = u}"
    unfolding all_def findMany_row_set by (simp add: eq_col_def)
  then have c: "set (map wf_row ws)
              = {w \<in> set (workouts db). w_userId w = u \<and> in_local_day env t (w_startedAt w)}"
    unfolding ws_def by auto
  have "startedAt_descending all" unfolding all_def by (rule findMany_descending)
  then have d: "startedAt_descending ws"
    unfolding ws_def startedAt_descending_def by (rule sorted_wrt_filter)
  from a b c d ws_def
  have first: "\<exists>ws all.
            getUserWorkoutsByDate env db u (Some t) = Inr ws
          \<and> getUserWorkouts env db u = Inr all
          \<and> ws = filter (\<lambda>w. in_local_day env t (w_startedAt (wf_row w))) all
          \<and> set (map wf_row ws)
              = {w \<in> set (workouts db). w_userId w = u \<and> in_local_day env t (w_startedAt w)}
          \<and> startedAt_descending ws"
    by blast
  have second: "(\<forall>x b. env_tza env x b = c) \<longrightarrow>
            (\<forall>s. in_local_day env t s = (Day (LocalTime env s) = Day (LocalTime env t)))"
    using in_local_day_fixed_offset by blast
  from first second show ?thesis by (rule conjI)
qed

lemmas ex_dated_defs = ex_dated_db_def ex_started_def ex_env_def ex_noon_def

lemmas date_defs =
  in_local_day_def day_representable_def UTC_def LocalTime_def MakeDate_def MakeTime_def
  Day_def msPerDay_def maxTime_def

theorem date_filtering_witness:
  "\<exists>ws. getUserWorkoutsByDate ex_env ex_dated_db ''user_A'' (Some ex_noon) = Inr ws
       \<and> map wf_row ws = [ex_started ''w3'' 1705445880000, ex_started ''w2'' 1705359660000]
       \<and> (\<forall>s. in_local_day ex_env ex_noon s
                = (Day (LocalTime ex_env s) = Day (LocalTime ex_env ex_noon)))"
proof -
  have h1: "env_fault ex_env = None" by (simp add: ex_env_def)
  have h2: "day_representable ex_env ex_noon" by (simp add: date_defs ex_dated_defs)
  have h3: "\<forall>x b. env_tza ex_env x b = 3600000" by (simp add: ex_env_def)
  note t = date_filtering [OF h1 h2, of ex_dated_db "''user_A''" 3600000]
  from t obtain ws all where
    b: "getUserWorkoutsByDate ex_env ex_dated_db ''user_A'' (Some ex_noon) = Inr ws"
    and a: "getUserWorkouts ex_env ex_dated_db ''user_A'' = Inr all"
    and w: "ws = filter (\<lambda>w. in_local_day ex_env ex_noon (w_startedAt (wf_row w))) all"
    by blast
  have "getUserWorkouts ex_env ex_dated_db ''user_A''
        = Inr (map (with_workoutExercises ex_dated_db)
                 [ex_started ''w3'' 1705445880000, ex_started ''w2'' 1705359660000,
                  ex_started ''w1'' 1705359540000])"
    by (simp add: getUserWorkouts_def findMany_desc_startedAt_def eq_col_def ex_dated_defs)
  with a have "all = map (with_workoutExercises ex_dated_db)
                 [ex_started ''w3'' 1705445880000, ex_started ''w2'' 1705359660000,
                  ex_started ''w1'' 1705359540000]"
    by simp
  with w have "map wf_row ws
               = [ex_started ''w3'' 1705445880000, ex_started ''w2'' 1705359660000]"
    by (simp add: date_defs ex_started_def ex_env_def ex_noon_def)
  moreover from t h3
  have "\<forall>s. in_local_day ex_env ex_noon s
                = (Day (LocalTime ex_env s) = Day (LocalTime ex_env ex_noon))"
    by blast
  ultimately show ?thesis using b by (intro exI [of _ ws]) simp
qed

section \<open>Properties of the mutation gateway\<close>

subsection \<open>Unauthenticated calls\<close>

lemma typed_actions_unauthenticated:
  assumes "falsy (env_auth env)"
  shows "createWorkoutAction env world input
           = (Returned (ActionError ''Unauthorized'' None), world)"
    and "updateWorkoutAction env world input
           = (Returned (ActionError ''Unauthorized'' None), world)"
  using assms by (simp_all add: createWorkoutAction_def updateWorkoutAction_def)

text \<open>
  Claim C4, at the two actions named \<open>createWorkoutAction\<close>, called with no user
  identity on the same world: the action that takes a \<open>FormData\<close> throws
  \<open>Unauthorized\<close> and returns no result, where the typed action returns
  \<open>{success: false, error: "Unauthorized"}\<close>. Neither validates, reads or writes
  anything.
\<close>

theorem formData_action_throws_unauthorized:
  "createWorkoutAction_formData (ex_env\<lparr>env_auth := None\<rparr>) ex_world ex_form
     = (Thrown ''Unauthorized'', ex_world)
   \<and> createWorkoutAction (ex_env\<lparr>env_auth := None\<rparr>) ex_world
        (obj [(''name'', JStr ''Leg Day''), (''startedAt'', JDate (Some 1705402800000))])
     = (Returned (ActionError ''Unauthorized'' None), ex_world)"
  by (simp add: createWorkoutAction_formData_def createWorkoutAction_def falsy_def)

subsection \<open>Invalid input\<close>

lemma issues_of_Inr: "issues_of r \<noteq> [] \<Longrightarrow> \<exists>is. r = Inl is \<and> is \<noteq> []"
  by (cases r) (simp_all add: issues_of_def)

lemma name_invalid_issues:
  assumes "name_invalid v"
  shows "issues_of (z_nullable (z_string [z_min 1, z_max 100]) v) \<noteq> []"
    and "issues_of (z_optional (z_nullable (z_string [z_min 1, z_max 100])) v) \<noteq> []"
  using assms
  by (cases v; auto simp: name_invalid_def z_optional_def z_nullable_def z_string_def z_min_def
      z_max_def issues_of_def)+

lemma timestamp_invalid_issues:
  assumes "timestamp_invalid v"
  shows "issues_of (z_date v) \<noteq> []"
    and "issues_of (z_optional z_date v) \<noteq> []"
    and "issues_of (z_optional (z_nullable z_date) v) \<noteq> []"
  using assms
  by (cases v; auto simp: timestamp_invalid_def z_optional_def z_nullable_def z_date_def
      issues_of_def split: option.splits)+

lemma workoutId_invalid_issues:
  assumes "workoutId_invalid env v"
  shows "issues_of (z_string [z_uuid env] v) \<noteq> []"
  using assms
  by (cases v) (simp_all add: workoutId_invalid_def z_string_def z_uuid_def issues_of_def)

lemma flatten_member:
  "(k, errs) \<in> set fs \<Longrightarrow> errs \<noteq> [] \<Longrightarrow> k \<in> set (map fst (flatten fs))"
  by (force simp: flatten_def)

lemma createWorkoutSchema_rejects:
  assumes "issues_of (z_nullable (z_string [z_min 1, z_max 100]) (input ''name'')) \<noteq> []
           \<or> issues_of (z_date (input ''startedAt'')) \<noteq> []"
  shows "createWorkoutSchema input
         = Inl (flatten
                  [(''name'', issues_of (z_nullable (z_string [z_min 1, z_max 100]) (input ''name''))),
                   (''startedAt'', issues_of (z_date (input ''startedAt'')))])"
  using assms
  by (auto simp: createWorkoutSchema_def Let_def issues_of_def split: sum.splits)

lemma updateWorkoutSchema_rejects:
  assumes "issues_of (z_string [z_uuid env] (input ''workoutId'')) \<noteq> []
           \<or> issues_of (z_optional (z_nullable (z_string [z_min 1, z_max 100])) (input ''name'')) \<noteq> []
           \<or> issues_of (z_optional z_date (input ''startedAt'')) \<noteq> []
           \<or> issues_of (z_optional (z_nullable z_date) (input ''completedAt'')) \<noteq> []"
  shows "updateWorkoutSchema env input
         = Inl (flatten
                  [(''workoutId'', issues_of (z_string [z_uuid env] (input ''workoutId''))),
                   (''name'', issues_of (z_optional (z_nullable (z_string [z_min 1, z_max 100]))
                                          (input ''name''))),
                   (''startedAt'', issues_of (z_optional z_date (input ''startedAt''))),
                   (''completedAt'', issues_of (z_optional (z_nullable z_date)
                                                 (input ''completedAt'')))])"
  using assms
  by (auto simp: updateWorkoutSchema_def Let_def issues_of_def split: sum.splits)


lemma createWorkoutAction_invalid:
  assumes "\<not> falsy (env_auth env)" "createWorkoutSchema input = Inl ds"
  shows "createWorkoutAction env world input
         = (Returned (ActionError ''Invalid input'' (Some ds)), world)"
  using assms by (simp add: createWorkoutAction_def)

lemma updateWorkoutAction_invalid:
  assumes "\<not> falsy (env_auth env)" "updateWorkoutSchema env input = Inl ds"
  shows "updateWorkoutAction env world input
         = (Returned (ActionError ''Invalid input'' (Some ds)), world)"
  using assms by (simp add: updateWorkoutAction_def)

text \<open>
  Claim C7. For an authenticated call: when the \<open>name\<close> of the input is an empty
  string or a string of more than 100 characters, or its \<open>startedAt\<close> is present and
  not a valid date, \<open>createWorkoutAction\<close> returns \<open>{success: false, error: "Invalid
  input", details}\<close>, the details naming each such field, and the store, the
  revalidated paths and the console are as before: the query layer is not called. The
  same holds for \<open>updateWorkoutAction\<close>, also when \<open>completedAt\<close> is present, not
  \<open>null\<close> and not a valid date, or \<open>workoutId\<close> is not a string that passes the uuid
  test.
\<close>

theorem invalid_input_rejected:
  assumes "\<not> falsy (env_auth env)"
  shows "(name_invalid (input ''name'') \<or> timestamp_invalid (input ''startedAt'') \<longrightarrow>
           (\<exists>ds. createWorkoutAction env world input
                   = (Returned (ActionError ''Invalid input'' (Some ds)), world)
               \<and> ds \<noteq> []
               \<and> (name_invalid (input ''name'') \<longrightarrow> ''name'' \<in> set (map fst ds))
               \<and> (timestamp_invalid (input ''startedAt'')
                    \<longrightarrow> ''startedAt'' \<in> set (map fst ds))))
       \<and> (workoutId_invalid env (input ''workoutId'') \<or> name_invalid (input ''name'')
            \<or> timestamp_invalid (input ''startedAt'')
            \<or> timestamp_invalid (input ''completedAt'') \<longrightarrow>
           (\<exists>ds. updateWorkoutAction env world input
                   = (Returned (ActionError ''Invalid input'' (Some ds)), world)
               \<and> ds \<noteq> []
               \<and> (workoutId_invalid env (input ''workoutId'')
                    \<longrightarrow> ''workoutId'' \<in> set (map fst ds))
               \<and> (name_invalid (input ''name'') \<longrightarrow> ''name'' \<in> set (map fst ds))
               \<and> (timestamp_invalid (input ''startedAt'')
                    \<longrightarrow> ''startedAt'' \<in> set (map fst ds))
               \<and> (timestamp_invalid (input ''completedAt'')
                    \<longrightarrow> ''completedAt'' \<in> set (map fst ds))))"
proof (intro conjI impI)
  assume bad: "name_invalid (input ''name'') \<or> timestamp_invalid (input ''startedAt'')"
  define fs where "fs =
    [(''name'', issues_of (z_nullable (z_string [z_min 1, z_max 100]) (input ''name''))),
     (''startedAt'', issues_of (z_date (input ''startedAt'')))]"
  have "createWorkoutSchema input = Inl (flatten fs)"
    unfolding fs_def
    by (rule createWorkoutSchema_rejects)
       (use bad name_invalid_issues(1) timestamp_invalid_issues(1) in blast)
  then have a: "createWorkoutAction env world input
                 = (Returned (ActionError ''Invalid input'' (Some (flatten fs))), world)"
    by (rule createWorkoutAction_invalid [OF assms])
  have n: "name_invalid (input ''name'') \<Longrightarrow> ''name'' \<in> set (map fst (flatten fs))"
    by (rule flatten_member [where errs = "issues_of (z_nullable (z_string [z_min 1, z_max 100])
                                                      (input ''name''))"])
       (simp add: fs_def, erule name_invalid_issues(1))
  have s: "timestamp_invalid (input ''startedAt'')
             \<Longrightarrow> ''startedAt'' \<in> set (map fst (flatten fs))"
    by (rule flatten_member [where errs = "issues_of (z_date (input ''startedAt''))"])
       (simp add: fs_def, erule timestamp_invalid_issues(1))
  from bad n s have "flatten fs \<noteq> []" by auto
  with a n s
  show "\<exists>ds. createWorkoutAction env world input
                   = (Returned (ActionError ''Invalid input'' (Some ds)), world)
               \<and> ds \<noteq> []
               \<and> (name_invalid (input ''name'') \<longrightarrow> ''name'' \<in> set (map fst ds))
               \<and> (timestamp_invalid (input ''startedAt'')
                    \<longrightarrow> ''startedAt'' \<in> set (map fst ds))"
    by (intro exI [of _ "flatten fs"]) simp
next
  assume bad: "workoutId_invalid env (input ''workoutId'') \<or> name_invalid (input ''name'')
            \<or> timestamp_invalid (input ''startedAt'')
            \<or> timestamp_invalid (input ''completedAt'')"
  define fs where "fs =
    [(''workoutId'', issues_of (z_string [z_uuid env] (input ''workoutId''))),
     (''name'', issues_of (z_optional (z_nullable (z_string [z_min 1, z_max 100]))
                            (input ''name''))),
     (''startedAt'', issues_of (z_optional z_date (input ''startedAt''))),
     (''completedAt'', issues_of (z_optional (z_nullable z_date) (input ''completedAt'')))]"
  have "updateWorkoutSchema env input = Inl (flatten fs)"
    unfolding fs_def
    by (rule updateWorkoutSchema_rejects)
       (use bad workoutId_invalid_issues name_invalid_issues(2) timestamp_invalid_issues(2,3)
         in blast)
  then have a: "updateWorkoutAction env world input
                 = (Returned (ActionError ''Invalid input'' (Some (flatten fs))), world)"
    by (rule updateWorkoutAction_invalid [OF assms])
  have i: "workoutId_invalid env (input ''workoutId'')
             \<Longrightarrow> ''workoutId'' \<in> set (map fst (flatten fs))"
    by (rule flatten_member [where errs = "issues_of (z_string [z_uuid env] (input ''workoutId''))"])
       (simp add: fs_def, erule workoutId_invalid_issues)
  have n: "name_invalid (input ''name'') \<Longrightarrow> ''name'' \<in> set (map fst (flatten fs))"
    by (rule flatten_member [where errs = "issues_of (z_optional (z_nullable
                                           (z_string [z_min 1, z_max 100])) (input ''name''))"])
       (simp add: fs_def, erule name_invalid_issues(2))
  have s: "timestamp_invalid (input ''startedAt'')
             \<Longrightarrow> ''startedAt'' \<in> set (map fst (flatten fs))"
    by (rule flatten_member [where errs = "issues_of (z_optional z_date (input ''startedAt''))"])
       (simp add: fs_def, erule timestamp_invalid_issues(2))
  have c: "timestamp_invalid (input ''completedAt'')
             \<Longrightarrow> ''completedAt'' \<in> set (map fst (flatten fs))"
    by (rule flatten_member [where errs = "issues_of (z_optional (z_nullable z_date)
                                                      (input ''completedAt''))"])
       (simp add: fs_def, erule timestamp_invalid_issues(3))
  from bad i n s c have "flatten fs \<noteq> []" by auto
  with a i n s c
  show "\<exists>ds. updateWorkoutAction env world input
                   = (Returned (ActionError ''Invalid input'' (Some ds)), world)
               \<and> ds \<noteq> []
               \<and> (workoutId_invalid env (input ''workoutId'')
                    \<longrightarrow> ''workoutId'' \<in> set (map fst ds))
               \<and> (name_invalid (input ''name'') \<longrightarrow> ''name'' \<in> set (map fst ds))
               \<and> (timestamp_invalid (input ''startedAt'')
                    \<longrightarrow> ''startedAt'' \<in> set (map fst ds))
               \<and> (timestamp_invalid (input ''completedAt'')
                    \<longrightarrow> ''completedAt'' \<in> set (map fst ds))"
    by (intro exI [of _ "flatten fs"]) simp
qed

theorem invalid_input_rejected_witness:
  "(\<exists>ds. createWorkoutAction ex_env ex_world
            (obj [(''name'', JStr []), (''startedAt'', JDate None)])
          = (Returned (ActionError ''Invalid input'' (Some ds)), ex_world)
        \<and> ''name'' \<in> set (map fst ds) \<and> ''startedAt'' \<in> set (map fst ds))
   \<and> (\<exists>ds. updateWorkoutAction ex_env ex_world
            (obj [(''workoutId'', JStr ''1''), (''completedAt'', JStr ''yesterday'')])
          = (Returned (ActionError ''Invalid input'' (Some ds)), ex_world)
        \<and> ''workoutId'' \<in> set (map fst ds) \<and> ''completedAt'' \<in> set (map fst ds))"
proof -
  let ?c = "obj [(''name'', JStr []), (''startedAt'', JDate None)]"
  let ?u = "obj [(''workoutId'', JStr ''1''), (''completedAt'', JStr ''yesterday'')]"
  have h: "\<not> falsy (env_auth ex_env)" by (simp add: falsy_def ex_env_def)
  have c1: "name_invalid (?c ''name'')" by (simp add: name_invalid_def obj_def)
  have c2: "timestamp_invalid (?c ''startedAt'')" by (simp add: timestamp_invalid_def obj_def)
  have u1: "workoutId_invalid ex_env (?u ''workoutId'')"
    by (simp add: workoutId_invalid_def obj_def ex_env_def)
  have u2: "timestamp_invalid (?u ''completedAt'')"
    by (simp add: timestamp_invalid_def obj_def)
  from invalid_input_rejected [OF h, of ?c ex_world] c1 c2
  have first: "\<exists>ds. createWorkoutAction ex_env ex_world ?c
          = (Returned (ActionError ''Invalid input'' (Some ds)), ex_world)
        \<and> ''name'' \<in> set (map fst ds) \<and> ''startedAt'' \<in> set (map fst ds)"
    by blast
  from invalid_input_rejected [OF h, of ?u ex_world] u1 u2
  have second: "\<exists>ds. updateWorkoutAction ex_env ex_world ?u
          = (Returned (ActionError ''Invalid input'' (Some ds)), ex_world)
        \<and> ''workoutId'' \<in> set (map fst ds) \<and> ''completedAt'' \<in> set (map fst ds)"
    by blast
  from first second show ?thesis by (rule conjI)
qed

subsection \<open>Storage failures\<close>

lemma first_of_None: "first_of xs = None \<longleftrightarrow> xs = []"
  by (cases xs) (simp_all add: first_of_def)

lemma createWorkout_throws:
  "createWorkout env db data u = (Inl err, db') \<Longrightarrow> db' = db"
  by (auto simp: createWorkout_def insert_workouts_def Let_def
      split: option.splits if_splits)

lemma updateWorkout_throws:
  "updateWorkout env db i data u = (Inl err, db') \<Longrightarrow> db' = db"
  by (auto simp: updateWorkout_def update_workouts_def split: option.splits)

lemma updateWorkout_undefined:
  assumes "updateWorkout env db i data u = (Inr None, db')"
  shows "db' = db"
proof -
  from assms have f: "env_fault env = None"
    by (auto simp: updateWorkout_def update_workouts_def split: option.splits)
  with assms have "filter (and_conds [eq_col w_id i, eq_col w_userId u]) (workouts db) = []"
    by (simp add: updateWorkout_def update_workouts_def first_of_None)
  then have "\<forall>r \<in> set (workouts db). \<not> and_conds [eq_col w_id i, eq_col w_userId u] r"
    by (simp add: filter_empty_conv)
  from updateWorkout_no_match [OF this, of env data] f assms show ?thesis by simp
qed

text \<open>
  Claim C8. For an authenticated call with an input the schema accepts: when the query
  layer throws an error \<open>err\<close>, the action returns \<open>{success: false, error: "Failed to
  create workout"}\<close> (or \<open>"Failed to update workout"\<close>), a value that does not
  depend on \<open>err\<close>, writes one line with \<open>err\<close> to the console and leaves the store
  as it was. When \<open>updateWorkout\<close> returns \<open>undefined\<close>, the action returns
  \<open>{success: false, error: "Workout not found or you do not have permission to edit
  it"}\<close> and changes nothing. Neither action ever throws.
\<close>

theorem storage_failure_containment:
  assumes "\<not> falsy (env_auth env)"
  shows "(createWorkoutSchema input = Inr cdata
           \<and> fst (createWorkout env (wld_db world) cdata (the (env_auth env))) = Inl err
          \<longrightarrow> createWorkoutAction env world input
               = (Returned (ActionError ''Failed to create workout'' None),
                  world\<lparr>wld_console := wld_console world
                                           @ [(''Failed to create workout:'', err)]\<rparr>))
       \<and> (updateWorkoutSchema env input = Inr (wid, udata)
           \<and> fst (updateWorkout env (wld_db world) wid udata (the (env_auth env))) = Inl err
          \<longrightarrow> updateWorkoutAction env world input
               = (Returned (ActionError ''Failed to update workout'' None),
                  world\<lparr>wld_console := wld_console world
                                           @ [(''Failed to update workout:'', err)]\<rparr>))
       \<and> (updateWorkoutSchema env input = Inr (wid, udata)
           \<and> fst (updateWorkout env (wld_db world) wid udata (the (env_auth env))) = Inr None
          \<longrightarrow> updateWorkoutAction env world input
               = (Returned (ActionError
                    ''Workout not found or you do not have permission to edit it'' None),
                  world))
       \<and> (\<exists>r. fst (createWorkoutAction env world input) = Returned r)
       \<and> (\<exists>r. fst (updateWorkoutAction env world input) = Returned r)"
proof (intro conjI impI)
  assume "createWorkoutSchema input = Inr cdata
           \<and> fst (createWorkout env (wld_db world) cdata (the (env_auth env))) = Inl err"
  then have p: "createWorkoutSchema input = Inr cdata"
    and "fst (createWorkout env (wld_db world) cdata (the (env_auth env))) = Inl err"
    by simp_all
  then obtain db' where
    c: "createWorkout env (wld_db world) cdata (the (env_auth env)) = (Inl err, db')"
    by (cases "createWorkout env (wld_db world) cdata (the (env_auth env))") simp
  then have "db' = wld_db world" by (rule createWorkout_throws)
  with c p assms
  show "createWorkoutAction env world input
               = (Returned (ActionError ''Failed to create workout'' None),
                  world\<lparr>wld_console := wld_console world
                                           @ [(''Failed to create workout:'', err)]\<rparr>)"
    by (simp add: createWorkoutAction_def)
next
  assume "updateWorkoutSchema env input = Inr (wid, udata)
           \<and> fst (updateWorkout env (wld_db world) wid udata (the (env_auth env))) = Inl err"
  then have p: "updateWorkoutSchema env input = Inr (wid, udata)"
    and "fst (updateWorkout env (wld_db world) wid udata (the (env_auth env))) = Inl err"
    by simp_all
  then obtain db' where
    c: "updateWorkout env (wld_db world) wid udata (the (env_auth env)) = (Inl err, db')"
    by (cases "updateWorkout env (wld_db world) wid udata (the (env_auth env))") simp
  then have "db' = wld_db world" by (rule updateWorkout_throws)
  with c p assms
  show "updateWorkoutAction env world input
               = (Returned (ActionError ''Failed to update workout'' None),
                  world\<lparr>wld_console := wld_console world
                                           @ [(''Failed to update workout:'', err)]\<rparr>)"
    by (simp add: updateWorkoutAction_def)
next
  assume "updateWorkoutSchema env input = Inr (wid, udata)
           \<and> fst (updateWorkout env (wld_db world) wid udata (the (env_auth env))) = Inr None"
  then have p: "updateWorkoutSchema env input = Inr (wid, udata)"
    and "fst (updateWorkout env (wld_db world) wid udata (the (env_auth env))) = Inr None"
    by simp_all
  then obtain db' where
    c: "updateWorkout env (wld_db world) wid udata (the (env_auth env)) = (Inr None, db')"
    by (cases "updateWorkout env (wld_db world) wid udata (the (env_auth env))") simp
  then have "db' = wld_db world" by (rule updateWorkout_undefined)
  with c p assms
  show "updateWorkoutAction env world input
               = (Returned (ActionError
                    ''Workout not found or you do not have permission to edit it'' None),
                  world)"
    by (simp add: updateWorkoutAction_def)
next
  show "\<exists>r. fst (createWorkoutAction env world input) = Returned r"
    by (simp add: createWorkoutAction_def split: sum.splits prod.splits)
next
  show "\<exists>r. fst (updateWorkoutAction env world input) = Returned r"
    by (simp add: updateWorkoutAction_def split: sum.splits prod.splits option.splits)
qed

theorem storage_failure_containment_witness:
  "createWorkoutAction ex_env_down ex_world
       (obj [(''name'', JNull), (''startedAt'', JDate (Some 1705402800000))])
     = (Returned (ActionError ''Failed to create workout'' None),
        ex_world\<lparr>wld_console :=
          [(''Failed to create workout:'', ''Connection terminated unexpectedly'')]\<rparr>)
   \<and> updateWorkoutAction ex_env_down ex_world
       (obj [(''workoutId'', JStr (w_id ex_workout)), (''name'', JStr ''B'')])
     = (Returned (ActionError ''Failed to update workout'' None),
        ex_world\<lparr>wld_console :=
          [(''Failed to update workout:'', ''Connection terminated unexpectedly'')]\<rparr>)
   \<and> updateWorkoutAction ex_env ex_world
       (obj [(''workoutId'', JStr (env_newId ex_env)), (''name'', JStr ''B'')])
     = (Returned (ActionError
          ''Workout not found or you do not have permission to edit it'' None),
        ex_world)"
proof -
  let ?c = "obj [(''name'', JNull), (''startedAt'', JDate (Some 1705402800000))]"
  let ?u = "obj [(''workoutId'', JStr (w_id ex_workout)), (''name'', JStr ''B'')]"
  let ?n = "obj [(''workoutId'', JStr (env_newId ex_env)), (''name'', JStr ''B'')]"
  let ?cd = "\<lparr> cd_name = None, cd_startedAt = 1705402800000 \<rparr>"
  let ?ud = "\<lparr> ud_name = Some (Some ''B''), ud_startedAt = None, ud_completedAt = None \<rparr>"
  have h: "\<not> falsy (env_auth ex_env_down)" "\<not> falsy (env_auth ex_env)"
    by (simp_all add: falsy_def ex_env_down_def ex_env_def)
  have a: "the (env_auth ex_env_down) = ''user_A''" "the (env_auth ex_env) = ''user_A''"
    by (simp_all add: ex_env_down_def ex_env_def)
  have c0: "wld_console ex_world = []" by (simp add: ex_world_def)
  have pc: "createWorkoutSchema ?c = Inr ?cd"
    by (simp add: createWorkoutSchema_def z_nullable_def z_date_def obj_def)
  have pu: "updateWorkoutSchema ex_env_down ?u = Inr (w_id ex_workout, ?ud)"
    by (simp add: updateWorkoutSchema_def z_string_def z_uuid_def z_min_def z_max_def
        z_optional_def z_nullable_def obj_def ex_env_down_def ex_env_def ex_workout_def)
  have pn: "updateWorkoutSchema ex_env ?n = Inr (env_newId ex_env, ?ud)"
    by (simp add: updateWorkoutSchema_def z_string_def z_uuid_def z_min_def z_max_def
        z_optional_def z_nullable_def obj_def ex_env_def)
  have tc: "fst (createWorkout ex_env_down (wld_db ex_world) ?cd (the (env_auth ex_env_down)))
            = Inl ''Connection terminated unexpectedly''"
    by (simp add: createWorkout_def insert_workouts_def ex_env_down_def)
  have tu: "fst (updateWorkout ex_env_down (wld_db ex_world) (w_id ex_workout) ?ud
                   (the (env_auth ex_env_down)))
            = Inl ''Connection terminated unexpectedly''"
    by (simp add: updateWorkout_def update_workouts_def ex_env_down_def)
  have tn: "fst (updateWorkout ex_env (wld_db ex_world) (env_newId ex_env) ?ud
                   (the (env_auth ex_env)))
            = Inr None"
    by (simp add: updateWorkout_def update_workouts_def first_of_def ex_env_def ex_world_def
        ex_db_def ex_workout_def)
  from storage_failure_containment [OF h(1), where input = ?c and cdata = ?cd and world = ex_world] pc tc c0
  have first: "createWorkoutAction ex_env_down ex_world ?c
     = (Returned (ActionError ''Failed to create workout'' None),
        ex_world\<lparr>wld_console :=
          [(''Failed to create workout:'', ''Connection terminated unexpectedly'')]\<rparr>)"
    by simp
  from storage_failure_containment [OF h(1), where input = ?u and world = ex_world and wid = "w_id ex_workout"
      and udata = ?ud]
    pu tu c0
  have second: "updateWorkoutAction ex_env_down ex_world ?u
     = (Returned (ActionError ''Failed to update workout'' None),
        ex_world\<lparr>wld_console :=
          [(''Failed to update workout:'', ''Connection terminated unexpectedly'')]\<rparr>)"
    by simp
  from storage_failure_containment [OF h(2), where input = ?n and world = ex_world and wid = "env_newId ex_env"
      and udata = ?ud]
    pn tn
  have third: "updateWorkoutAction ex_env ex_world ?n
     = (Returned (ActionError
          ''Workout not found or you do not have permission to edit it'' None),
        ex_world)"
    by simp
  from first second third show ?thesis by (intro conjI)
qed

subsection \<open>Identity columns under update\<close>

lemma set_columns_identity [simp]:
  "identity_columns (set_columns data now w) = identity_columns w"
  by (simp add: identity_columns_def set_columns_def)

lemma updateWorkout_identity:
  "map identity_columns (workouts (snd (updateWorkout env db i data u)))
   = map identity_columns (workouts db)"
  by (cases "env_fault env") (simp_all add: updateWorkout_def update_workouts_def comp_def)

lemma updateWorkout_other_tables:
  "exercises (snd (updateWorkout env db i data u)) = exercises db
   \<and> workoutExercises (snd (updateWorkout env db i data u)) = workoutExercises db
   \<and> sets (snd (updateWorkout env db i data u)) = sets db"
  by (cases "env_fault env") (simp_all add: updateWorkout_def update_workouts_def)

lemma updateWorkoutAction_identity:
  "map identity_columns (workouts (wld_db (snd (updateWorkoutAction env world input))))
     = map identity_columns (workouts (wld_db world))"
proof (cases "falsy (env_auth env)")
  case True
  then show ?thesis by (simp add: updateWorkoutAction_def)
next
  case False
  show ?thesis
  proof (cases "updateWorkoutSchema env input")
    case (Inl ds)
    with False show ?thesis by (simp add: updateWorkoutAction_def)
  next
    case (Inr parsed)
    obtain i data where parsed: "parsed = (i, data)" by (cases parsed)
    obtain r db' where
      u: "updateWorkout env (wld_db world) i data (the (env_auth env)) = (r, db')"
      by (cases "updateWorkout env (wld_db world) i data (the (env_auth env))")
    have "map identity_columns (workouts db') = map identity_columns (workouts (wld_db world))"
      using updateWorkout_identity [of env "wld_db world" i data "the (env_auth env)"] u
      by simp
    with False Inr parsed u show ?thesis
      by (simp add: updateWorkoutAction_def split: sum.splits option.splits)
  qed
qed

lemma updateWorkout_returned_row:
  assumes "updateWorkout env db i data u = (Inr (Some w'), db')"
  shows "\<exists>w \<in> set (workouts db). w_userId w = u \<and> identity_columns w' = identity_columns w"
proof -
  from assms have f: "env_fault env = None"
    by (auto simp: updateWorkout_def update_workouts_def split: option.splits)
  define ms where "ms = filter (and_conds [eq_col w_id i, eq_col w_userId u]) (workouts db)"
  from assms f have "first_of (map (set_columns data (env_now env)) ms) = Some w'"
    by (simp add: updateWorkout_def update_workouts_def ms_def)
  then obtain w rest where m: "ms = w # rest" and w': "w' = set_columns data (env_now env) w"
    by (cases ms) (auto simp: first_of_def)
  from m have "w \<in> set ms" by simp
  then have "w \<in> set (workouts db)" and "w_userId w = u" by (simp_all add: ms_def)
  with w' show ?thesis by auto
qed

lemma updateWorkoutSchema_fields:
  assumes "same_schema_fields a b"
  shows "updateWorkoutSchema env a = updateWorkoutSchema env b"
  using assms by (simp add: same_schema_fields_def updateWorkoutSchema_def)

text \<open>
  Claim C10. Whatever the input of \<open>updateWorkoutAction\<close>, the \<open>id\<close>, \<open>userId\<close> and
  \<open>createdAt\<close> of every stored workout are the same after the call as before, row by
  row; a row the action returns has the \<open>id\<close>, \<open>userId\<close> and \<open>createdAt\<close> of a stored
  row of the caller; and properties of the input other than \<open>workoutId\<close>, \<open>name\<close>,
  \<open>startedAt\<close> and \<open>completedAt\<close> have no effect on the call.
\<close>

theorem identity_fields_immutable:
  "map identity_columns (workouts (wld_db (snd (updateWorkoutAction env world input))))
     = map identity_columns (workouts (wld_db world))
   \<and> (updateWorkoutAction env world input = (Returned (ActionSuccess (Some w')), world')
        \<longrightarrow> (\<exists>w \<in> set (workouts (wld_db world)).
               w_userId w = the (env_auth env) \<and> identity_columns w' = identity_columns w))
   \<and> (same_schema_fields input input'
        \<longrightarrow> updateWorkoutAction env world input' = updateWorkoutAction env world input)"
proof (intro conjI impI)
  show "map identity_columns (workouts (wld_db (snd (updateWorkoutAction env world input))))
     = map identity_columns (workouts (wld_db world))"
    by (rule updateWorkoutAction_identity)
next
  assume a: "updateWorkoutAction env world input = (Returned (ActionSuccess (Some w')), world')"
  then obtain i data db' where
    "updateWorkout env (wld_db world) i data (the (env_auth env)) = (Inr (Some w'), db')"
    by (auto simp: updateWorkoutAction_def split: if_splits sum.splits prod.splits option.splits)
  then show "\<exists>w \<in> set (workouts (wld_db world)).
               w_userId w = the (env_auth env) \<and> identity_columns w' = identity_columns w"
    by (rule updateWorkout_returned_row)
next
  assume "same_schema_fields input input'"
  then have "updateWorkoutSchema env input' = updateWorkoutSchema env input"
    by (rule updateWorkoutSchema_fields [symmetric])
  then show "updateWorkoutAction env world input' = updateWorkoutAction env world input"
    by (simp add: updateWorkoutAction_def)
qed

theorem identity_fields_immutable_witness:
  "map identity_columns
     (workouts (wld_db (snd (updateWorkoutAction ex_env ex_world
        (obj [(''workoutId'', JStr (w_id ex_workout)), (''name'', JStr ''B''),
              (''userId'', JStr ''user_B''), (''id'', JStr ''1''),
              (''createdAt'', JDate (Some 0))])))))
   = [(w_id ex_workout, ''user_A'', 1705363260000)]
   \<and> updateWorkoutAction ex_env ex_world
        (obj [(''workoutId'', JStr (w_id ex_workout)), (''name'', JStr ''B''),
              (''userId'', JStr ''user_B''), (''id'', JStr ''1''),
              (''createdAt'', JDate (Some 0))])
     = updateWorkoutAction ex_env ex_world
        (obj [(''workoutId'', JStr (w_id ex_workout)), (''name'', JStr ''B'')])
   \<and> (\<exists>w'. fst (updateWorkoutAction ex_env ex_world
        (obj [(''workoutId'', JStr (w_id ex_workout)), (''name'', JStr ''B'')]))
           = Returned (ActionSuccess (Some w'))
         \<and> w_name w' = Some ''B'' \<and> identity_columns w' = identity_columns ex_workout)"
proof -
  let ?x = "obj [(''workoutId'', JStr (w_id ex_workout)), (''name'', JStr ''B''),
              (''userId'', JStr ''user_B''), (''id'', JStr ''1''),
              (''createdAt'', JDate (Some 0))]"
  let ?p = "obj [(''workoutId'', JStr (w_id ex_workout)), (''name'', JStr ''B'')]"
  let ?d = "\<lparr> ud_name = Some (Some ''B''), ud_startedAt = None, ud_completedAt = None \<rparr>"
  have s: "same_schema_fields ?p ?x" by (simp add: same_schema_fields_def obj_def)
  have auth: "\<not> falsy (env_auth ex_env)" "the (env_auth ex_env) = w_userId ex_workout"
    by (simp_all add: falsy_def ex_env_def ex_workout_def)
  have p: "updateWorkoutSchema ex_env ?p = Inr (w_id ex_workout, ?d)"
    by (simp add: updateWorkoutSchema_def z_string_def z_uuid_def z_min_def z_max_def
        z_optional_def z_nullable_def obj_def ex_env_def ex_workout_def)
  have h1: "primary_key_ok (wld_db ex_world)"
    by (simp add: primary_key_ok_def ex_world_def ex_db_def)
  have h2: "ex_workout \<in> set (workouts (wld_db ex_world))"
    by (simp add: ex_world_def ex_db_def)
  have h3: "env_fault ex_env = None" by (simp add: ex_env_def)
  have r: "fst (updateWorkoutAction ex_env ex_world ?p)
           = Returned (ActionSuccess (Some (set_columns ?d (env_now ex_env) ex_workout)))"
    by (simp add: updateWorkoutAction_def auth p updateWorkout_owned [OF h1 h2 h3])
  obtain world' where
    a: "updateWorkoutAction ex_env ex_world ?p
        = (Returned (ActionSuccess (Some (set_columns ?d (env_now ex_env) ex_workout))), world')"
    using r by (cases "updateWorkoutAction ex_env ex_world ?p") simp
  note t = identity_fields_immutable [of ex_env ex_world ?p
      "set_columns ?d (env_now ex_env) ex_workout" world' ?x]
  from t s have e: "updateWorkoutAction ex_env ex_world ?x
                    = updateWorkoutAction ex_env ex_world ?p"
    by blast
  from t have "map identity_columns
                 (workouts (wld_db (snd (updateWorkoutAction ex_env ex_world ?p))))
               = map identity_columns (workouts (wld_db ex_world))"
    by blast
  also have "\<dots> = [(w_id ex_workout, ''user_A'', 1705363260000)]"
    by (simp add: identity_columns_def ex_world_def ex_db_def ex_workout_def)
  finally have k: "map identity_columns
                 (workouts (wld_db (snd (updateWorkoutAction ex_env ex_world ?x))))
               = [(w_id ex_workout, ''user_A'', 1705363260000)]"
    by (simp only: e)
  from t a obtain w where
    w: "w \<in> set (workouts (wld_db ex_world))"
      "identity_columns (set_columns ?d (env_now ex_env) ex_workout) = identity_columns w"
    by blast
  from w(1) have "w = ex_workout" by (simp add: ex_world_def ex_db_def)
  with w(2) r
  have l: "\<exists>w'. fst (updateWorkoutAction ex_env ex_world ?p)
                  = Returned (ActionSuccess (Some w'))
         \<and> w_name w' = Some ''B'' \<and> identity_columns w' = identity_columns ex_workout"
    by (intro exI [of _ "set_columns ?d (env_now ex_env) ex_workout"])
       (simp add: set_columns_def)
  from k e l show ?thesis by (intro conjI)
qed

subsection \<open>From completed back to in progress\<close>

text \<open>
  Claim C9. Let \<open>w\<close> be a workout of the caller whose \<open>completedAt\<close> is set. An input
  with the id of \<open>w\<close>, \<open>completedAt: null\<close> and a \<open>name\<close> and \<open>startedAt\<close> that their
  schemas accept passes validation, and \<open>updateWorkoutAction\<close> succeeds: the row it
  returns, which replaces \<open>w\<close> in the store, has \<open>completedAt\<close> absent.
\<close>

theorem completed_to_in_progress:
  assumes "\<not> falsy (env_auth env)" and "env_fault env = None"
    and "primary_key_ok (wld_db world)" and "w \<in> set (workouts (wld_db world))"
    and "w_userId w = the (env_auth env)" and "w_completedAt w = Some c"
    and "input ''workoutId'' = JStr (w_id w)" and "env_uuid env (w_id w)"
    and "input ''completedAt'' = JNull"
    and "z_optional (z_nullable (z_string [z_min 1, z_max 100])) (input ''name'') = Inr n"
    and "z_optional z_date (input ''startedAt'') = Inr s"
  shows "\<exists>w'. updateWorkoutAction env world input
               = (Returned (ActionSuccess (Some w')),
                  world\<lparr> wld_db := (wld_db world)
                                     \<lparr>workouts := map (\<lambda>r. if r = w then w' else r)
                                                    (workouts (wld_db world))\<rparr>,
                         wld_revalidated := wld_revalidated world
                           @ [''/dashboard'', ''/dashboard/workout/'' @ w_id w] \<rparr>)
           \<and> w_completedAt w' = None \<and> w_id w' = w_id w \<and> w_userId w' = w_userId w"
proof -
  let ?data = "\<lparr> ud_name = n, ud_startedAt = s, ud_completedAt = Some None \<rparr>"
  have p: "updateWorkoutSchema env input = Inr (w_id w, ?data)"
    using assms(7-11)
    by (simp add: updateWorkoutSchema_def z_string_def z_uuid_def z_optional_def
        z_nullable_def)
  have u: "updateWorkout env (wld_db world) (w_id w) ?data (the (env_auth env))
         = (Inr (Some (set_columns ?data (env_now env) w)),
            (wld_db world)\<lparr>workouts :=
               map (\<lambda>r. if r = w then set_columns ?data (env_now env) w else r)
                 (workouts (wld_db world))\<rparr>)"
    using updateWorkout_owned [OF assms(3,4,2)] assms(5) by simp
  show ?thesis
    by (intro exI [of _ "set_columns ?data (env_now env) w"])
       (simp add: updateWorkoutAction_def assms(1) p u set_columns_def)
qed

theorem completed_to_in_progress_witness:
  "\<exists>w'. updateWorkoutAction ex_env ex_world
            (obj [(''workoutId'', JStr (w_id ex_workout)), (''completedAt'', JNull)])
          = (Returned (ActionSuccess (Some w')),
             ex_world\<lparr> wld_db := ex_db\<lparr>workouts := [w']\<rparr>,
                       wld_revalidated :=
                         [''/dashboard'', ''/dashboard/workout/'' @ w_id ex_workout] \<rparr>)
        \<and> w_completedAt ex_workout = Some 1705366860000
        \<and> w_completedAt w' = None \<and> w_id w' = w_id ex_workout \<and> w_userId w' = ''user_A''"
proof -
  let ?i = "obj [(''workoutId'', JStr (w_id ex_workout)), (''completedAt'', JNull)]"
  have h1: "\<not> falsy (env_auth ex_env)" by (simp add: falsy_def ex_env_def)
  have h2: "env_fault ex_env = None" by (simp add: ex_env_def)
  have h3: "primary_key_ok (wld_db ex_world)"
    by (simp add: primary_key_ok_def ex_world_def ex_db_def)
  have h4: "ex_workout \<in> set (workouts (wld_db ex_world))"
    by (simp add: ex_world_def ex_db_def)
  have h5: "w_userId ex_workout = the (env_auth ex_env)"
    by (simp add: ex_workout_def ex_env_def)
  have h6: "w_completedAt ex_workout = Some 1705366860000" by (simp add: ex_workout_def)
  have h7: "?i ''workoutId'' = JStr (w_id ex_workout)" by (simp add: obj_def)
  have h8: "env_uuid ex_env (w_id ex_workout)" by (simp add: ex_env_def ex_workout_def)
  have h9: "?i ''completedAt'' = JNull" by (simp add: obj_def)
  have h10: "z_optional (z_nullable (z_string [z_min 1, z_max 100])) (?i ''name'') = Inr None"
    by (simp add: z_optional_def obj_def)
  have h11: "z_optional z_date (?i ''startedAt'') = Inr None"
    by (simp add: z_optional_def obj_def)
  from completed_to_in_progress [OF h1 h2 h3 h4 h5 h6 h7 h8 h9 h10 h11]
  obtain w' where
    u: "updateWorkoutAction ex_env ex_world ?i
          = (Returned (ActionSuccess (Some w')),
             ex_world\<lparr> wld_db := (wld_db ex_world)
                                     \<lparr>workouts := map (\<lambda>r. if r = ex_workout then w' else r)
                                                    (workouts (wld_db ex_world))\<rparr>,
                       wld_revalidated := wld_revalidated ex_world
                           @ [''/dashboard'', ''/dashboard/workout/'' @ w_id ex_workout] \<rparr>)"
    and f: "w_completedAt w' = None" "w_id w' = w_id ex_workout"
      "w_userId w' = w_userId ex_workout"
    by blast
  have "(wld_db ex_world)\<lparr>workouts := map (\<lambda>r. if r = ex_workout then w' else r)
                                          (workouts (wld_db ex_world))\<rparr>
        = ex_db\<lparr>workouts := [w']\<rparr>"
    by (simp add: ex_world_def ex_db_def)
  moreover have "wld_revalidated ex_world = []" by (simp add: ex_world_def)
  ultimately have "updateWorkoutAction ex_env ex_world ?i
          = (Returned (ActionSuccess (Some w')),
             ex_world\<lparr> wld_db := ex_db\<lparr>workouts := [w']\<rparr>,
                       wld_revalidated :=
                         [''/dashboard'', ''/dashboard/workout/'' @ w_id ex_workout] \<rparr>)"
    using u by simp
  moreover from f(3) have "w_userId w' = ''user_A''" by (simp add: ex_workout_def)
  ultimately show ?thesis using h6 f(1,2) by (intro exI [of _ w']) simp
qed

end
